theory Spec2Isabelle
  imports Main "HOL-Library.Multiset"
begin

section \<open>JavaScript values\<close>

text \<open>
  The Lambda handler of \<^verbatim>\<open>lambda-package/index.js\<close> works on dynamically typed
  values: the parsed request body, the cells of a result row, the value handed to
  \<^verbatim>\<open>JSON.stringify\<close>. They are modelled by one datatype. Numbers are the integers
  (nothing below depends on the value of a number), strings are \<open>string\<close>, exact for ASCII text. \<open>JFun\<close> is a
  built-in function object, named; it only arises from a property found on
  \<^verbatim>\<open>Object.prototype\<close>.
\<close>

datatype jsval =
    JUndefined
  | JNull
  | JBool bool
  | JNum int
  | JStr string
  | JArr "jsval list"
  | JObj "(string \<times> jsval) list"
  | JFun string

text \<open>What the source can throw: the engine's errors and the rejection of a statement by
  the storage driver. Each carries the text of \<^verbatim>\<open>error.message\<close>.\<close>

datatype error =
    TypeError string
  | SyntaxError string
  | StorageError string

fun error_message :: "error \<Rightarrow> string" where
  "error_message (TypeError m) = m"
| "error_message (SyntaxError m) = m"
| "error_message (StorageError m) = m"

text \<open>Sequencing of computations that may throw.\<close>

definition bindE :: "error + 'a \<Rightarrow> ('a \<Rightarrow> error + 'b) \<Rightarrow> error + 'b" where
  "bindE m f = (case m of Inl e \<Rightarrow> Inl e | Inr x \<Rightarrow> f x)"

text \<open>Truthiness, as \<^verbatim>\<open>!x\<close>, \<^verbatim>\<open>x || y\<close> and \<^verbatim>\<open>if (x)\<close> read it.\<close>

fun truthy :: "jsval \<Rightarrow> bool" where
  "truthy JUndefined = False"
| "truthy JNull = False"
| "truthy (JBool b) = b"
| "truthy (JNum n) = (n \<noteq> 0)"
| "truthy (JStr s) = (s \<noteq> [])"
| "truthy (JArr xs) = True"
| "truthy (JObj kvs) = True"
| "truthy (JFun f) = True"

definition js_or :: "jsval \<Rightarrow> jsval \<Rightarrow> jsval" where
  "js_or a b = (if truthy a then a else b)"

text \<open>
  Property access \<^verbatim>\<open>v.p\<close> for the fixed property names the handler reads
  (\<^verbatim>\<open>userInfo\<close>, \<^verbatim>\<open>type\<close>, \<^verbatim>\<open>severity\<close>, ...). None of them is a member of a built-in
  prototype, so only an object's own properties can answer. Reading a property of
  \<^verbatim>\<open>null\<close> or \<^verbatim>\<open>undefined\<close> throws.
\<close>

fun get_prop :: "jsval \<Rightarrow> string \<Rightarrow> error + jsval" where
  "get_prop JUndefined p = Inl (TypeError (''Cannot read properties of undefined (reading '' @ p @ '')''))"
| "get_prop JNull p = Inl (TypeError (''Cannot read properties of null (reading '' @ p @ '')''))"
| "get_prop (JObj kvs) p = Inr (case map_of kvs p of Some v \<Rightarrow> v | None \<Rightarrow> JUndefined)"
| "get_prop v p = Inr JUndefined"

text \<open>Optional chaining \<^verbatim>\<open>v?.p\<close>: \<^verbatim>\<open>undefined\<close> on a nullish receiver, never a throw.\<close>

fun opt_prop :: "jsval \<Rightarrow> string \<Rightarrow> jsval" where
  "opt_prop (JObj kvs) p = (case map_of kvs p of Some v \<Rightarrow> v | None \<Rightarrow> JUndefined)"
| "opt_prop v p = JUndefined"

subsection \<open>Conversion to a string\<close>

fun digit_char :: "nat \<Rightarrow> char" where
  "digit_char n = (''0123456789abcdefghijklmnopqrstuvwxyz'' ! (n mod 36))"

fun to_base :: "nat \<Rightarrow> nat \<Rightarrow> string" where
  "to_base b n = (if b < 2 \<or> n < b then [digit_char n] else to_base b (n div b) @ [digit_char (n mod b)])"

definition show_int :: "int \<Rightarrow> string" where
  "show_int i = (if i < 0 then CHR ''-'' # to_base 10 (nat (- i)) else to_base 10 (nat i))"

fun join_with :: "string \<Rightarrow> string list \<Rightarrow> string" where
  "join_with sep [] = []"
| "join_with sep [x] = x"
| "join_with sep (x # y # ys) = x @ sep @ join_with sep (y # ys)"

text \<open>
  \<^verbatim>\<open>ToString\<close>, as a template literal and a computed property key apply it. An array
  joins its elements with a comma, \<^verbatim>\<open>null\<close> and \<^verbatim>\<open>undefined\<close> elements as the empty
  string. An object answers through \<^verbatim>\<open>toString\<close>: the inherited one gives
  \<^verbatim>\<open>[object Object]\<close>; an own property of that name, which in a parsed JSON document is
  never a function, leaves no way to a primitive and the conversion throws.
\<close>

fun to_string :: "jsval \<Rightarrow> error + string"
  and elems_to_strings :: "jsval list \<Rightarrow> error + string list" where
  "to_string JUndefined = Inr ''undefined''"
| "to_string JNull = Inr ''null''"
| "to_string (JBool b) = Inr (if b then ''true'' else ''false'')"
| "to_string (JNum n) = Inr (show_int n)"
| "to_string (JStr s) = Inr s"
| "to_string (JArr xs) =
     (case elems_to_strings xs of Inl e \<Rightarrow> Inl e | Inr ss \<Rightarrow> Inr (join_with '','' ss))"
| "to_string (JObj kvs) =
     (if ''toString'' \<in> set (map fst kvs)
      then Inl (TypeError ''Cannot convert object to primitive value'')
      else Inr ''[object Object]'')"
| "to_string (JFun f) = Inr (''function '' @ f @ ''() { [native code] }'')"
| "elems_to_strings [] = Inr []"
| "elems_to_strings (x # xs) =
     (case (if x = JNull \<or> x = JUndefined then Inr [] else to_string x) of
        Inl e \<Rightarrow> Inl e
      | Inr s \<Rightarrow> (case elems_to_strings xs of Inl e \<Rightarrow> Inl e | Inr ss \<Rightarrow> Inr (s # ss)))"

subsection \<open>Object literals and the prototype chain\<close>

text \<open>The own property names of \<^verbatim>\<open>Object.prototype\<close>, which every object literal
  inherits.\<close>

definition object_prototype :: "(string \<times> jsval) list" where
  "object_prototype =
     [(''constructor'', JFun ''Object''),
      (''__defineGetter__'', JFun ''__defineGetter__''),
      (''__defineSetter__'', JFun ''__defineSetter__''),
      (''hasOwnProperty'', JFun ''hasOwnProperty''),
      (''__lookupGetter__'', JFun ''__lookupGetter__''),
      (''__lookupSetter__'', JFun ''__lookupSetter__''),
      (''isPrototypeOf'', JFun ''isPrototypeOf''),
      (''propertyIsEnumerable'', JFun ''propertyIsEnumerable''),
      (''toString'', JFun ''toString''),
      (''valueOf'', JFun ''valueOf''),
      (''__proto__'', JObj []),
      (''toLocaleString'', JFun ''toLocaleString'')]"

text \<open>
  A computed read \<^verbatim>\<open>literal[k]\<close> on an object literal: the key is converted to a
  string, the literal's own properties are searched first, then the prototype's.
\<close>

definition lookup_literal :: "(string \<times> jsval) list \<Rightarrow> jsval \<Rightarrow> error + jsval" where
  "lookup_literal lit k =
     bindE (to_string k) (\<lambda>key.
       Inr (case map_of lit key of
              Some v \<Rightarrow> v
            | None \<Rightarrow> (case map_of object_prototype key of Some v \<Rightarrow> v | None \<Rightarrow> JUndefined)))"

subsection \<open>String methods\<close>

definition lower_char :: "char \<Rightarrow> char" where
  "lower_char c =
     (case map_of (zip ''ABCDEFGHIJKLMNOPQRSTUVWXYZ'' ''abcdefghijklmnopqrstuvwxyz'') c of
        Some d \<Rightarrow> d | None \<Rightarrow> c)"

definition upper_char :: "char \<Rightarrow> char" where
  "upper_char c =
     (case map_of (zip ''abcdefghijklmnopqrstuvwxyz'' ''ABCDEFGHIJKLMNOPQRSTUVWXYZ'') c of
        Some d \<Rightarrow> d | None \<Rightarrow> c)"

text \<open>The case conversions and the white space of \<^verbatim>\<open>trim\<close> are those of ASCII. (No
  character outside ASCII is turned by \<^verbatim>\<open>toLowerCase\<close> into a letter of the two
  addresses of the IT team list, so membership in that list is decided exactly.)\<close>

definition toLowerCase :: "string \<Rightarrow> string" where
  "toLowerCase s = map lower_char s"

definition toUpperCase :: "string \<Rightarrow> string" where
  "toUpperCase s = map upper_char s"

definition is_space :: "char \<Rightarrow> bool" where
  "is_space c = (c \<in> set [CHR 0x09, CHR 0x0A, CHR 0x0B, CHR 0x0C, CHR 0x0D, CHR 0x20])"

definition trim :: "string \<Rightarrow> string" where
  "trim s = rev (dropWhile is_space (rev (dropWhile is_space s)))"

text \<open>\<^verbatim>\<open>s.replace('-', ' ')\<close>: the first hyphen only.\<close>

fun replace_hyphen :: "string \<Rightarrow> string" where
  "replace_hyphen [] = []"
| "replace_hyphen (c # cs) = (if c = CHR ''-'' then CHR '' '' # cs else c # replace_hyphen cs)"

text \<open>
  A method call \<^verbatim>\<open>v.m(...)\<close> with a string method on a value that is not
  \<^verbatim>\<open>null\<close> or \<^verbatim>\<open>undefined\<close>: only a string has the method; on anything else the
  property is not a function and the call throws.
\<close>

definition string_method :: "string \<Rightarrow> (string \<Rightarrow> string) \<Rightarrow> jsval \<Rightarrow> error + string" where
  "string_method name f v =
     (case v of
        JStr s \<Rightarrow> Inr (f s)
      | JUndefined \<Rightarrow> Inl (TypeError (''Cannot read properties of undefined (reading '' @ name @ '')''))
      | JNull \<Rightarrow> Inl (TypeError (''Cannot read properties of null (reading '' @ name @ '')''))
      | _ \<Rightarrow> Inl (TypeError (name @ '' is not a function'')))"

section \<open>The storage collaborator\<close>

text \<open>
  The tables of \<^verbatim>\<open>database/schema.sql\<close> with the columns the handler reads and
  writes. A cell holds the value that was bound to it, a JSON column the document itself
  (the handler binds \<^verbatim>\<open>JSON.stringify(x)\<close>; the driver hands a JSON column back
  parsed, or as text, which is then a \<open>JStr\<close> cell). Keys are strings, timestamps are
  milliseconds, strings are compared as they are. The order of a table's rows is the
  order in which the storage yields them; nothing relates it to a timestamp column.
\<close>

type_synonym timestamp = nat

record request_row =
  req_id :: string
  user_id :: jsval
  user_info :: jsval
  form_data :: jsval
  request_type :: jsval
  details :: jsval
  reason :: jsval
  request_status :: jsval
  priority_level :: jsval
  created_at :: timestamp
  updated_at :: timestamp

record comment_row =
  cmt_id :: string
  request_id :: string
  cmt_user_id :: jsval
  user_name :: jsval
  message :: jsval
  is_internal :: jsval
  cmt_created_at :: timestamp

record role_row =
  email :: string
  user_role :: jsval
  permissions :: jsval

text \<open>The statements the handler sends, each with its bound parameters.\<close>

datatype stmt =
    SelectUserRole string
  | SelectRequests "string option"
  | InsertRequest request_row
  | SelectStats
  | UpdateStatus jsval timestamp string
  | InsertComment comment_row
  | SelectRequestById string

text \<open>What \<^verbatim>\<open>fetch\<close> does with the webhook call: it resolves with a status and a
  text, or rejects.\<close>

datatype fetch_result =
    Responded nat string
  | Rejected string

text \<open>
  Everything outside the handler that one invocation reads or changes: the three
  tables; \<open>faults\<close>, the verdicts of the storage on the next statements (\<open>Some m\<close>: the
  statement is rejected with message \<open>m\<close>, as for a lost connection or a violated
  constraint of the schema; an exhausted list accepts); \<open>trace\<close>, the statements sent so
  far; the messages given to \<^verbatim>\<open>console.error\<close>; the clock and the random suffix of the
  identifier generators; the webhook configuration, what \<^verbatim>\<open>fetch\<close> will do, and the
  payloads posted; the row of the \<^verbatim>\<open>request_stats\<close> view.
\<close>

record world =
  requests :: "request_row list"
  request_comments :: "comment_row list"
  user_roles :: "role_row list"
  faults :: "string option list"
  trace :: "stmt list"
  console_error :: "string list"
  now :: timestamp
  random_suffix :: string
  POWER_AUTOMATE_WEBHOOK_URL :: "string option"
  fetch_outcome :: fetch_result
  posted :: "jsval list"
  request_stats :: "jsval list"

text \<open>The change an accepted statement makes. An \<^verbatim>\<open>UPDATE\<close> that matches no row
  changes nothing and is no error.\<close>

fun effect :: "stmt \<Rightarrow> world \<Rightarrow> world" where
  "effect (InsertRequest r) w = w\<lparr>requests := requests w @ [r]\<rparr>"
| "effect (UpdateStatus s t i) w =
     w\<lparr>requests := map (\<lambda>r. if req_id r = i then r\<lparr>request_status := s, updated_at := t\<rparr> else r)
                        (requests w)\<rparr>"
| "effect (InsertComment c) w = w\<lparr>request_comments := request_comments w @ [c]\<rparr>"
| "effect q w = w"

text \<open>
  \<^verbatim>\<open>executeQuery\<close>: the statement is sent once; a rejection is written to
  \<^verbatim>\<open>console.error\<close> and thrown again, unchanged.
\<close>

definition executeQuery :: "stmt \<Rightarrow> world \<Rightarrow> (error + unit) \<times> world" where
  "executeQuery q w =
     (let w1 = w\<lparr>trace := trace w @ [q]\<rparr> in
      case faults w1 of
        [] \<Rightarrow> (Inr (), effect q w1)
      | None # fs \<Rightarrow> (Inr (), effect q (w1\<lparr>faults := fs\<rparr>))
      | Some m # fs \<Rightarrow>
          (Inl (StorageError m), w1\<lparr>faults := fs, console_error := console_error w1 @ [m]\<rparr>))"

subsection \<open>The read queries\<close>

text \<open>\<^verbatim>\<open>JSON_OBJECT('id', c.id, 'userId', c.user_id, ...)\<close> of a comment row.\<close>

definition comment_json :: "comment_row \<Rightarrow> jsval" where
  "comment_json c =
     JObj [(''id'', JStr (cmt_id c)),
           (''userId'', cmt_user_id c),
           (''userName'', user_name c),
           (''message'', message c),
           (''timestamp'', JNum (int (cmt_created_at c))),
           (''isInternal'', is_internal c)]"

text \<open>\<^verbatim>\<open>FROM requests r LEFT JOIN request_comments c ON r.id = c.request_id\<close>: every
  request is paired with each of its comments; a request without comments keeps one
  row, with no comment.\<close>

definition matching :: "request_row \<Rightarrow> comment_row list \<Rightarrow> comment_row option list" where
  "matching r cs =
     (case filter (\<lambda>c. request_id c = req_id r) cs of
        [] \<Rightarrow> [None]
      | ms \<Rightarrow> map Some ms)"

definition left_join :: "request_row list \<Rightarrow> comment_row list \<Rightarrow> (request_row \<times> comment_row option) list" where
  "left_join rs cs = concat (map (\<lambda>r. map (Pair r) (matching r cs)) rs)"

text \<open>\<^verbatim>\<open>GROUP BY r.id\<close>: one group for each id, with the joined rows of that id.\<close>

fun group_by_id :: "(request_row \<times> 'c) list \<Rightarrow> (request_row \<times> 'c list) list" where
  "group_by_id [] = []"
| "group_by_id ((r, c) # xs) =
     (r, c # map snd (filter (\<lambda>x. req_id (fst x) = req_id r) xs))
       # group_by_id (filter (\<lambda>x. req_id (fst x) \<noteq> req_id r) xs)"

text \<open>\<^verbatim>\<open>JSON_ARRAYAGG(CASE WHEN c.id IS NOT NULL THEN JSON_OBJECT(...) ELSE NULL END)\<close>
  over the rows of a group, in the order the join yields them (the query asks for no
  order inside the aggregate); the driver hands the array back parsed.\<close>

definition json_arrayagg :: "comment_row option list \<Rightarrow> jsval" where
  "json_arrayagg cs = JArr (map (\<lambda>c. case c of Some c' \<Rightarrow> comment_json c' | None \<Rightarrow> JNull) cs)"

definition aggregate :: "(request_row \<times> comment_row option) list \<Rightarrow> (request_row \<times> jsval) list" where
  "aggregate joined = map (\<lambda>(r, cs). (r, json_arrayagg cs)) (group_by_id joined)"

text \<open>
  The list query: the join, \<^verbatim>\<open>WHERE r.user_id = ?\<close> when a user id is bound, the
  grouping, and \<^verbatim>\<open>ORDER BY r.created_at DESC\<close>.
\<close>

definition select_requests :: "string option \<Rightarrow> world \<Rightarrow> (request_row \<times> jsval) list" where
  "select_requests scope w =
     rev (sort_key (\<lambda>x. created_at (fst x))
       (aggregate
         (filter (\<lambda>x. case scope of None \<Rightarrow> True | Some uid \<Rightarrow> user_id (fst x) = JStr uid)
            (left_join (requests w) (request_comments w)))))"

text \<open>The fetch after an update: the same join and grouping, \<^verbatim>\<open>WHERE r.id = ?\<close>.\<close>

definition select_request_by_id :: "string \<Rightarrow> world \<Rightarrow> (request_row \<times> jsval) list" where
  "select_request_by_id i w =
     aggregate (filter (\<lambda>x. req_id (fst x) = i) (left_join (requests w) (request_comments w)))"

text \<open>\<^verbatim>\<open>SELECT user_role, permissions FROM user_roles WHERE email = ?\<close>\<close>

definition select_user_role :: "string \<Rightarrow> world \<Rightarrow> role_row list" where
  "select_user_role e w = filter (\<lambda>r. email r = e) (user_roles w)"

section \<open>The handler\<close>

subsection \<open>Events, responses, helpers\<close>

text \<open>
  The event of an invocation, with the fields the handler reads; \<open>rc_method\<close> and
  \<open>rc_path\<close> are \<^verbatim>\<open>event.requestContext?.http?.method\<close> and \<^verbatim>\<open>...?.path\<close>. An absent
  field is \<open>None\<close>; the query parameters are strings, an absent parameter object is the
  empty list.
\<close>

record event =
  httpMethod :: "string option"
  path :: "string option"
  rawPath :: "string option"
  rc_method :: "string option"
  rc_path :: "string option"
  queryStringParameters :: "(string \<times> string) list"
  body :: "string option"

text \<open>The response: \<open>resp_body\<close> is the value given to \<^verbatim>\<open>JSON.stringify\<close>. The
  headers are the same constant table in every response and are left out.\<close>

record response =
  statusCode :: nat
  resp_body :: jsval

text \<open>\<^verbatim>\<open>a || b || ... || d\<close> over strings that may be absent: the first non-empty one.\<close>

fun first_truthy :: "string option list \<Rightarrow> string \<Rightarrow> string" where
  "first_truthy [] d = d"
| "first_truthy (None # xs) d = first_truthy xs d"
| "first_truthy (Some s # xs) d = (if s \<noteq> [] then s else first_truthy xs d)"

definition query_param :: "event \<Rightarrow> string \<Rightarrow> string option" where
  "query_param ev k = map_of (queryStringParameters ev) k"

text \<open>\<^verbatim>\<open>JSON.parse(event.body)\<close>, with \<^verbatim>\<open>JSON.parse\<close> a parameter of the model: \<open>None\<close>
  is its \<^verbatim>\<open>SyntaxError\<close>. A \<^verbatim>\<open>null\<close> body parses to \<^verbatim>\<open>null\<close>.\<close>

definition parse_body :: "(string \<Rightarrow> jsval option) \<Rightarrow> event \<Rightarrow> error + jsval" where
  "parse_body parse ev =
     (case body ev of
        None \<Rightarrow> Inr JNull
      | Some s \<Rightarrow> (case parse s of
                     Some v \<Rightarrow> Inr v
                   | None \<Rightarrow> Inl (SyntaxError ''Unexpected token in JSON'')))"

definition parseJSON :: "(string \<Rightarrow> jsval option) \<Rightarrow> jsval \<Rightarrow> jsval" where
  "parseJSON parse jsonString =
     (if \<not> truthy jsonString then JNull
      else (case jsonString of
              JStr s \<Rightarrow> (case parse s of Some v \<Rightarrow> v | None \<Rightarrow> JNull)
            | _ \<Rightarrow> jsonString))"

definition isITTeamMember :: "string \<Rightarrow> bool" where
  "isITTeamMember e = (toLowerCase e \<in> set [''john.smith@company.net'', ''admin@company.net''])"

text \<open>The identifier generators: a prefix, the clock in base 36 and the random suffix
  \<^verbatim>\<open>Math.random().toString(36).substring(2, 8)\<close>, in upper case.\<close>

definition generateRequestId :: "world \<Rightarrow> string" where
  "generateRequestId w = toUpperCase (''REQ-'' @ to_base 36 (now w) @ ''-'' @ random_suffix w)"

definition generateCommentId :: "world \<Rightarrow> string" where
  "generateCommentId w = toUpperCase (''CMT-'' @ to_base 36 (now w) @ ''-'' @ random_suffix w)"

subsection \<open>The notification\<close>

record report_data =
  rd_requestId :: string
  rd_userInfo :: jsval
  rd_formData :: jsval
  rd_severity :: jsval
  rd_type :: jsval
  rd_reason :: jsval

definition severityEmojis :: "(string \<times> jsval) list" where
  "severityEmojis =
     [(''low'', JStr [CHR 0xF0, CHR 0x9F, CHR 0x9F, CHR 0xA2]),
      (''medium'', JStr [CHR 0xF0, CHR 0x9F, CHR 0x9F, CHR 0xA1]),
      (''high'', JStr [CHR 0xF0, CHR 0x9F, CHR 0x94, CHR 0xB4]),
      (''critical'', JStr [CHR 0xF0, CHR 0x9F, CHR 0x9A, CHR 0xA8])]"

definition incidentTypeEmojis :: "(string \<times> jsval) list" where
  "incidentTypeEmojis =
     [(''phishing-email'', JStr [CHR 0xF0, CHR 0x9F, CHR 0x93, CHR 0xA7]),
      (''suspicious-website'', JStr [CHR 0xF0, CHR 0x9F, CHR 0x8C, CHR 0x90]),
      (''social-engineering'', JStr [CHR 0xF0, CHR 0x9F, CHR 0x91, CHR 0xA5]),
      (''malware'', JStr [CHR 0xF0, CHR 0x9F, CHR 0xA6, CHR 0xA0]),
      (''data-breach'', JStr [CHR 0xF0, CHR 0x9F, CHR 0x94, CHR 0x93]),
      (''identity-theft'', JStr [CHR 0xF0, CHR 0x9F, CHR 0x86, CHR 0x94]),
      (''other'', JStr [CHR 0xE2, CHR 0x9D, CHR 0x93])]"

definition shield :: jsval where
  "shield = JStr [CHR 0xF0, CHR 0x9F, CHR 0x9B, CHR 0xA1, CHR 0xEF, CHR 0xB8, CHR 0x8F]"

text \<open>\<^verbatim>\<open>x?.m(...)\<close> with a string method: \<^verbatim>\<open>undefined\<close> on a nullish receiver.\<close>

definition opt_string_method :: "string \<Rightarrow> (string \<Rightarrow> string) \<Rightarrow> jsval \<Rightarrow> error + jsval" where
  "opt_string_method name f v =
     (if v = JNull \<or> v = JUndefined then Inr JUndefined
      else bindE (string_method name f v) (\<lambda>s. Inr (JStr s)))"

definition text_block :: "string \<Rightarrow> jsval" where
  "text_block t = JObj [(''type'', JStr ''TextBlock''), (''text'', JStr t)]"

definition fact :: "string \<Rightarrow> jsval \<Rightarrow> jsval" where
  "fact t v = JObj [(''title'', JStr t), (''value'', v)]"

text \<open>
  The payload of the notification, built before the \<^verbatim>\<open>try\<close> block, property by
  property in the order of the source: the first conversion or method call that throws
  ends it. (The styling properties of the card, constants, are left out.)
\<close>

definition notification_payload :: "report_data \<Rightarrow> error + jsval" where
  "notification_payload rd =
     bindE (lookup_literal severityEmojis (rd_severity rd)) (\<lambda>sevEmoji.
     bindE (to_string sevEmoji) (\<lambda>sevEmojiText.
     bindE (to_string (js_or (opt_prop (rd_userInfo rd) ''name'') (JStr ''Unknown''))) (\<lambda>name.
     bindE (to_string (js_or (opt_prop (rd_userInfo rd) ''email'') (JStr ''N/A''))) (\<lambda>mail.
     bindE (lookup_literal incidentTypeEmojis (opt_prop (rd_formData rd) ''incidentType'')) (\<lambda>typeEmoji.
     bindE (to_string (js_or typeEmoji shield)) (\<lambda>typeEmojiText.
     bindE (opt_string_method ''replace'' replace_hyphen
              (js_or (opt_prop (rd_formData rd) ''incidentType'') (rd_type rd))) (\<lambda>typeName.
     bindE (to_string typeName) (\<lambda>typeNameText.
     bindE (opt_string_method ''toUpperCase'' toUpperCase (rd_severity rd)) (\<lambda>sevUpper.
     bindE (to_string sevUpper) (\<lambda>sevUpperText.
     bindE (string_method ''substring'' (take 200)
              (js_or (opt_prop (rd_formData rd) ''description'') (JStr ''No description provided''))) (\<lambda>description.
     Inr (JObj
       [(''attachments'', JArr [JObj
          [(''contentType'', JStr ''application/vnd.microsoft.card.adaptive''),
           (''content'', JObj
              [(''type'', JStr ''AdaptiveCard''),
               (''version'', JStr ''1.4''),
               (''body'', JArr
                  [text_block (sevEmojiText @ '' New Security Incident Report''),
                   text_block (''Report ID: '' @ rd_requestId rd),
                   JObj [(''type'', JStr ''FactSet''),
                         (''facts'', JArr
                            [fact ''Reporter'' (JStr (name @ '' ('' @ mail @ '')'')),
                             fact ''Department''
                               (js_or (opt_prop (rd_userInfo rd) ''department'') (JStr ''Not specified'')),
                             fact ''Incident Type'' (JStr (typeEmojiText @ '' '' @ typeNameText)),
                             fact ''Severity'' (JStr (sevEmojiText @ '' '' @ sevUpperText)),
                             fact ''Subject''
                               (js_or (opt_prop (rd_formData rd) ''subject'') (rd_reason rd)),
                             fact ''Date Occurred''
                               (js_or (opt_prop (rd_formData rd) ''dateOccurred'') (JStr ''Not specified''))])],
                   text_block ''**Description:**'',
                   text_block description]),
               (''actions'', JArr
                  [JObj [(''type'', JStr ''Action.OpenUrl''),
                         (''title'', JStr ''View Dashboard''),
                         (''url'', JStr ''https://company-security-portal.company.net/'')]])])]]),
        (''reportId'', JStr (rd_requestId rd)),
        (''severity'', rd_severity rd),
        (''subject'', js_or (opt_prop (rd_formData rd) ''subject'') (rd_reason rd)),
        (''reporterName'', js_or (opt_prop (rd_userInfo rd) ''name'') (JStr ''Unknown'')),
        (''reporterEmail'', js_or (opt_prop (rd_userInfo rd) ''email'') (JStr ''N/A''))]))))))))))))"

text \<open>
  \<^verbatim>\<open>sendTeamsNotification\<close>: nothing happens without a configured URL. Otherwise the
  payload is built, then posted inside \<^verbatim>\<open>try\<close>: a response that is not ok and a
  rejected \<^verbatim>\<open>fetch\<close> are written to \<^verbatim>\<open>console.error\<close> and go no further.
\<close>

definition sendTeamsNotification :: "report_data \<Rightarrow> world \<Rightarrow> (error + unit) \<times> world" where
  "sendTeamsNotification rd w =
     (case POWER_AUTOMATE_WEBHOOK_URL w of
        None \<Rightarrow> (Inr (), w)
      | Some url \<Rightarrow>
          (if url = [] then (Inr (), w)
           else (case notification_payload rd of
                   Inl e \<Rightarrow> (Inl e, w)
                 | Inr payload \<Rightarrow>
                     (case fetch_outcome w of
                        Responded status txt \<Rightarrow>
                          (if 200 \<le> status \<and> status \<le> 299
                           then (Inr (), w\<lparr>posted := posted w @ [payload]\<rparr>)
                           else (Inr (), w\<lparr>posted := posted w @ [payload],
                                            console_error := console_error w @ [txt]\<rparr>))
                      | Rejected m \<Rightarrow>
                          (Inr (), w\<lparr>console_error := console_error w @ [m]\<rparr>)))))"

subsection \<open>Role resolution: \<^verbatim>\<open>GET /api/auth/user-role\<close>\<close>

definition user_permissions :: "string list" where
  "user_permissions = [''request:create'', ''request:view-own'']"

definition it_support_permissions :: "string list" where
  "it_support_permissions =
     [''request:create'', ''request:view-own'', ''request:view-all'', ''request:approve'',
      ''request:assign'', ''notification:send'', ''analytics:view'']"

definition admin_permissions :: "string list" where
  "admin_permissions =
     [''request:create'', ''request:view-own'', ''request:view-all'', ''request:approve'',
      ''request:assign'', ''request:delete'', ''notification:send'', ''user:manage'',
      ''analytics:view'']"

definition permission_list :: "string list \<Rightarrow> jsval" where
  "permission_list ps = JArr (map JStr ps)"

text \<open>The \<^verbatim>\<open>catch (parseError)\<close> branch: the fallback keyed by the role.\<close>

definition fallback_permissions :: "jsval \<Rightarrow> jsval" where
  "fallback_permissions role =
     (if role = JStr ''admin'' then permission_list admin_permissions
      else if role = JStr ''it-support'' then permission_list it_support_permissions
      else permission_list user_permissions)"

text \<open>The permissions of a stored record: a string is parsed (and what it parses to is
  taken as it is), an array is taken as it is, anything else gives the fixed default.\<close>

definition resolve_permissions :: "(string \<Rightarrow> jsval option) \<Rightarrow> jsval \<Rightarrow> jsval \<Rightarrow> jsval" where
  "resolve_permissions parse role permissionsData =
     (case permissionsData of
        JStr s \<Rightarrow> (case parse s of Some v \<Rightarrow> v | None \<Rightarrow> fallback_permissions role)
      | JArr xs \<Rightarrow> JArr xs
      | _ \<Rightarrow> permission_list user_permissions)"

definition resolve_role :: "(string \<Rightarrow> jsval option) \<Rightarrow> role_row list \<Rightarrow> jsval \<times> jsval" where
  "resolve_role parse result =
     (case result of
        [] \<Rightarrow> (JStr ''user'', permission_list user_permissions)
      | r # rest \<Rightarrow> (user_role r, resolve_permissions parse (user_role r) (permissions r)))"

definition user_info_body :: "string \<Rightarrow> timestamp \<Rightarrow> jsval \<times> jsval \<Rightarrow> jsval" where
  "user_info_body userEmail t rp =
     JObj [(''user'', JObj
              [(''userId'', JStr (''user-'' @ to_base 10 t)),
               (''email'', JStr userEmail),
               (''name'', JStr ''Unknown User''),
               (''role'', fst rp),
               (''permissions'', snd rp),
               (''isITTeam'', JBool (fst rp = JStr ''it-support'' \<or> fst rp = JStr ''admin'')),
               (''isAdmin'', JBool (fst rp = JStr ''admin''))]),
           (''roles'', JObj [(''USER'', JStr ''user''),
                            (''IT_SUPPORT'', JStr ''it-support''),
                            (''ADMIN'', JStr ''admin'')])]"

text \<open>The route has a \<^verbatim>\<open>try\<close> of its own: whatever the lookup throws becomes a 500
  response with the error's message.\<close>

definition user_role_route :: "(string \<Rightarrow> jsval option) \<Rightarrow> event \<Rightarrow> world \<Rightarrow> (error + response) \<times> world" where
  "user_role_route parse ev w =
     (let userEmail = first_truthy [query_param ev ''email''] [] in
      if userEmail = []
      then (Inr \<lparr>statusCode = 400,
                 resp_body = JObj [(''error'', JStr ''Bad Request''),
                                   (''message'', JStr ''Email is required for user role determination'')]\<rparr>, w)
      else (case executeQuery (SelectUserRole (toLowerCase userEmail)) w of
              (Inl e, w1) \<Rightarrow>
                (Inr \<lparr>statusCode = 500,
                      resp_body = JObj [(''error'', JStr ''Internal server error''),
                                        (''message'', JStr (error_message e))]\<rparr>,
                 w1\<lparr>console_error := console_error w1 @ [error_message e]\<rparr>)
            | (Inr u, w1) \<Rightarrow>
                (Inr \<lparr>statusCode = 200,
                      resp_body = user_info_body userEmail (now w1)
                        (resolve_role parse (select_user_role (toLowerCase userEmail) w1))\<rparr>, w1)))"

subsection \<open>The list: \<^verbatim>\<open>GET /api/requests\<close>\<close>

text \<open>\<^verbatim>\<open>row.comments ? parseJSON(row.comments).filter(c => c !== null) : []\<close>\<close>

definition row_comments :: "(string \<Rightarrow> jsval option) \<Rightarrow> jsval \<Rightarrow> error + jsval" where
  "row_comments parse cell =
     (if truthy cell
      then (case parseJSON parse cell of
              JArr xs \<Rightarrow> Inr (JArr (filter (\<lambda>c. c \<noteq> JNull) xs))
            | JNull \<Rightarrow> Inl (TypeError ''Cannot read properties of null (reading filter)'')
            | _ \<Rightarrow> Inl (TypeError ''filter is not a function''))
      else Inr (JArr []))"

text \<open>The response shape of one request row, given its comments.\<close>

definition row_object :: "(string \<Rightarrow> jsval option) \<Rightarrow> request_row \<Rightarrow> jsval \<Rightarrow> jsval" where
  "row_object parse r cs =
     JObj
       [(''id'', JStr (req_id r)),
        (''userId'', user_id r),
        (''userInfo'', parseJSON parse (user_info r)),
        (''formData'', parseJSON parse (form_data r)),
        (''type'', request_type r),
        (''details'', parseJSON parse (details r)),
        (''reason'', reason r),
        (''status'', request_status r),
        (''priority'', priority_level r),
        (''createdAt'', JNum (int (created_at r))),
        (''updatedAt'', JNum (int (updated_at r))),
        (''comments'', cs),
        (''isSecurityIncident'', JBool True),
        (''severity'', js_or (opt_prop (parseJSON parse (form_data r)) ''severity'') (priority_level r))]"

definition transform_row :: "(string \<Rightarrow> jsval option) \<Rightarrow> request_row \<times> jsval \<Rightarrow> error + jsval" where
  "transform_row parse row =
     bindE (row_comments parse (snd row)) (\<lambda>cs. Inr (row_object parse (fst row) cs))"

text \<open>\<^verbatim>\<open>rows.map(...)\<close>: the first row whose mapping throws ends it.\<close>

fun map_rows :: "('a \<Rightarrow> error + 'b) \<Rightarrow> 'a list \<Rightarrow> error + 'b list" where
  "map_rows f [] = Inr []"
| "map_rows f (x # xs) =
     (case f x of
        Inl e \<Rightarrow> Inl e
      | Inr y \<Rightarrow> (case map_rows f xs of Inl e \<Rightarrow> Inl e | Inr ys \<Rightarrow> Inr (y # ys)))"

text \<open>The caller of a list call, with the defaults of the source, and the scope of the
  query: no restriction for a member of the IT team, the caller's own requests otherwise.\<close>

definition list_userId :: "event \<Rightarrow> string" where
  "list_userId ev = first_truthy [query_param ev ''userId''] ''test-user-123''"

definition list_userEmail :: "event \<Rightarrow> string" where
  "list_userEmail ev = first_truthy [query_param ev ''userEmail''] ''john.smith@company.net''"

definition list_scope :: "event \<Rightarrow> string option" where
  "list_scope ev = (if isITTeamMember (list_userEmail ev) then None else Some (list_userId ev))"

definition list_route :: "(string \<Rightarrow> jsval option) \<Rightarrow> event \<Rightarrow> world \<Rightarrow> (error + response) \<times> world" where
  "list_route parse ev w =
     (case executeQuery (SelectRequests (list_scope ev)) w of
        (Inl e, w1) \<Rightarrow> (Inl e, w1)
      | (Inr u, w1) \<Rightarrow>
          (case map_rows (transform_row parse) (select_requests (list_scope ev) w1) of
             Inl e \<Rightarrow> (Inl e, w1)
           | Inr reqs \<Rightarrow>
               (Inr \<lparr>statusCode = 200,
                     resp_body = JObj [(''requests'', JArr reqs),
                                       (''count'', JNum (int (length reqs)))]\<rparr>, w1)))"

subsection \<open>Creation: \<^verbatim>\<open>POST /api/requests\<close>\<close>

definition severityToPriority :: "(string \<times> jsval) list" where
  "severityToPriority =
     [(''low'', JStr ''low''), (''medium'', JStr ''medium''),
      (''high'', JStr ''high''), (''critical'', JStr ''critical'')]"

text \<open>
  The priority of a new request:
  \<^verbatim>\<open>let priority = 'medium';
  if (requestData.formData?.severity) {
    priority = severityToPriority[requestData.formData.severity] || 'medium';
  }\<close>
\<close>

definition derive_priority :: "jsval \<Rightarrow> error + jsval" where
  "derive_priority requestData =
     bindE (get_prop requestData ''formData'') (\<lambda>formData.
       if truthy (opt_prop formData ''severity'')
       then bindE (lookup_literal severityToPriority (opt_prop formData ''severity''))
              (\<lambda>p. Inr (js_or p (JStr ''medium'')))
       else Inr (JStr ''medium''))"

definition missing_fields_response :: response where
  "missing_fields_response =
     \<lparr>statusCode = 400,
      resp_body = JObj [(''error'', JStr ''Missing required fields: userInfo, type, reason'')]\<rparr>"

definition new_request_row :: "string \<Rightarrow> jsval \<Rightarrow> jsval \<Rightarrow> jsval \<Rightarrow> timestamp \<Rightarrow> request_row" where
  "new_request_row requestId userId requestData priority t =
     \<lparr>req_id = requestId,
      user_id = userId,
      user_info = opt_prop requestData ''userInfo'',
      form_data = js_or (opt_prop requestData ''formData'') (JObj []),
      request_type = opt_prop requestData ''type'',
      details = js_or (opt_prop requestData ''details'') (JObj []),
      reason = opt_prop requestData ''reason'',
      request_status = JStr ''open'',
      priority_level = priority,
      created_at = t,
      updated_at = t\<rparr>"

definition created_response :: "string \<Rightarrow> jsval \<Rightarrow> jsval \<Rightarrow> jsval \<Rightarrow> timestamp \<Rightarrow> response" where
  "created_response requestId userId requestData priority t =
     \<lparr>statusCode = 201,
      resp_body = JObj
        [(''message'', JStr ''Security report created successfully''),
         (''request'', JObj
            [(''id'', JStr requestId),
             (''userId'', userId),
             (''userInfo'', opt_prop requestData ''userInfo''),
             (''formData'', opt_prop requestData ''formData''),
             (''type'', opt_prop requestData ''type''),
             (''details'', opt_prop requestData ''details''),
             (''reason'', opt_prop requestData ''reason''),
             (''status'', JStr ''open''),
             (''priority'', priority),
             (''createdAt'', JNum (int t)),
             (''isSecurityIncident'', JBool True)])]\<rparr>"

definition create_route :: "(string \<Rightarrow> jsval option) \<Rightarrow> event \<Rightarrow> world \<Rightarrow> (error + response) \<times> world" where
  "create_route parse ev w =
     (case parse_body parse ev of
        Inl e \<Rightarrow> (Inl e, w)
      | Inr requestData \<Rightarrow>
          (case get_prop requestData ''userId'' of
             Inl e \<Rightarrow> (Inl e, w)
           | Inr uid \<Rightarrow>
               (if \<not> truthy (opt_prop requestData ''userInfo'')
                   \<or> \<not> truthy (opt_prop requestData ''type'')
                   \<or> \<not> truthy (opt_prop requestData ''reason'')
                then (Inr missing_fields_response, w)
                else (case derive_priority requestData of
                        Inl e \<Rightarrow> (Inl e, w)
                      | Inr priority \<Rightarrow>
                          (let userId = js_or uid (JStr ''test-user-123'');
                               requestId = generateRequestId w
                           in case executeQuery
                                     (InsertRequest (new_request_row requestId userId requestData priority (now w))) w of
                                (Inl e, w1) \<Rightarrow> (Inl e, w1)
                              | (Inr u, w1) \<Rightarrow>
                                  (case sendTeamsNotification
                                          \<lparr>rd_requestId = requestId,
                                           rd_userInfo = opt_prop requestData ''userInfo'',
                                           rd_formData = opt_prop requestData ''formData'',
                                           rd_severity = priority,
                                           rd_type = opt_prop requestData ''type'',
                                           rd_reason = opt_prop requestData ''reason''\<rparr> w1 of
                                     (Inl e, w2) \<Rightarrow> (Inl e, w2)
                                   | (Inr u', w2) \<Rightarrow>
                                       (Inr (created_response requestId userId requestData priority (now w)), w2)))))))"

subsection \<open>Status update: \<^verbatim>\<open>PUT /api/requests/{id}/status\<close>\<close>

text \<open>\<^verbatim>\<open>updateData.notes && updateData.notes.trim()\<close> as a condition.\<close>

definition notes_given :: "jsval \<Rightarrow> error + bool" where
  "notes_given notes =
     (if truthy notes then bindE (string_method ''trim'' trim notes) (\<lambda>t. Inr (t \<noteq> []))
      else Inr False)"

text \<open>The comment that records the notes; the message is a template literal over the
  status and the notes.\<close>

definition notes_comment :: "string \<Rightarrow> string \<Rightarrow> jsval \<Rightarrow> timestamp \<Rightarrow> error + comment_row" where
  "notes_comment commentId requestId updateData t =
     bindE (to_string (opt_prop updateData ''status'')) (\<lambda>status.
     bindE (to_string (opt_prop updateData ''notes'')) (\<lambda>notes.
       Inr \<lparr>cmt_id = commentId,
            request_id = requestId,
            cmt_user_id = js_or (opt_prop updateData ''updatedBy'') (JStr ''admin''),
            user_name = JStr ''IT Admin'',
            message = JStr (''Status changed to '' @ status @ ''. Notes: '' @ notes),
            is_internal = js_or (opt_prop updateData ''isInternal'') (JBool False),
            cmt_created_at = t\<rparr>))"

definition add_notes :: "string \<Rightarrow> jsval \<Rightarrow> world \<Rightarrow> (error + unit) \<times> world" where
  "add_notes requestId updateData w =
     (case notes_given (opt_prop updateData ''notes'') of
        Inl e \<Rightarrow> (Inl e, w)
      | Inr False \<Rightarrow> (Inr (), w)
      | Inr True \<Rightarrow>
          (case notes_comment (generateCommentId w) requestId updateData (now w) of
             Inl e \<Rightarrow> (Inl e, w)
           | Inr c \<Rightarrow> executeQuery (InsertComment c) w))"

definition not_found_response :: response where
  "not_found_response = \<lparr>statusCode = 404, resp_body = JObj [(''error'', JStr ''Request not found'')]\<rparr>"

definition fetch_updated :: "(string \<Rightarrow> jsval option) \<Rightarrow> string \<Rightarrow> world \<Rightarrow> (error + response) \<times> world" where
  "fetch_updated parse requestId w =
     (case executeQuery (SelectRequestById requestId) w of
        (Inl e, w1) \<Rightarrow> (Inl e, w1)
      | (Inr u, w1) \<Rightarrow>
          (case select_request_by_id requestId w1 of
             [] \<Rightarrow> (Inr not_found_response, w1)
           | updatedRequest # rest \<Rightarrow>
               (case transform_row parse updatedRequest of
                  Inl e \<Rightarrow> (Inl e, w1)
                | Inr transformed \<Rightarrow>
                    (Inr \<lparr>statusCode = 200,
                          resp_body = JObj [(''message'', JStr ''Request status updated successfully''),
                                            (''request'', transformed)]\<rparr>, w1))))"

definition status_route :: "(string \<Rightarrow> jsval option) \<Rightarrow> string \<Rightarrow> event \<Rightarrow> world \<Rightarrow> (error + response) \<times> world" where
  "status_route parse requestId ev w =
     (case parse_body parse ev of
        Inl e \<Rightarrow> (Inl e, w)
      | Inr updateData \<Rightarrow>
          (case get_prop updateData ''status'' of
             Inl e \<Rightarrow> (Inl e, w)
           | Inr status \<Rightarrow>
               (if \<not> truthy status
                then (Inr \<lparr>statusCode = 400,
                           resp_body = JObj [(''error'', JStr ''Status is required'')]\<rparr>, w)
                else (case executeQuery (UpdateStatus status (now w) requestId) w of
                        (Inl e, w1) \<Rightarrow> (Inl e, w1)
                      | (Inr u, w1) \<Rightarrow>
                          (case add_notes requestId updateData w1 of
                             (Inl e, w2) \<Rightarrow> (Inl e, w2)
                           | (Inr u', w2) \<Rightarrow> fetch_updated parse requestId w2)))))"

subsection \<open>The other routes and the dispatch\<close>

definition stats_route :: "world \<Rightarrow> (error + response) \<times> world" where
  "stats_route w =
     (case executeQuery SelectStats w of
        (Inl e, w1) \<Rightarrow> (Inl e, w1)
      | (Inr u, w1) \<Rightarrow>
          (Inr \<lparr>statusCode = 200,
                resp_body = JObj [(''statistics'',
                  js_or (case request_stats w1 of [] \<Rightarrow> JUndefined | row # rest \<Rightarrow> row)
                    (JObj [(''total'', JNum 0), (''open'', JNum 0), (''in-progress'', JNum 0),
                           (''resolved'', JNum 0), (''closed'', JNum 0)]))]\<rparr>, w1))"

definition health_response :: "world \<Rightarrow> response" where
  "health_response w =
     \<lparr>statusCode = 200,
      resp_body = JObj [(''status'', JStr ''OK''),
                        (''message'', JStr ''Company Security Portal API is running!''),
                        (''timestamp'', JNum (int (now w))),
                        (''version'', JStr ''1.0.0'')]\<rparr>"

definition test_teams_route :: "world \<Rightarrow> (error + response) \<times> world" where
  "test_teams_route w =
     (case sendTeamsNotification
             \<lparr>rd_requestId = ''TEST-'' @ to_base 10 (now w),
              rd_userInfo = JObj [(''name'', JStr ''Test User''), (''email'', JStr ''test@test.com''),
                                  (''department'', JStr ''IT'')],
              rd_formData = JObj [(''subject'', JStr ''Test notification from Lambda''),
                                  (''description'', JStr ''This is a test notification''),
                                  (''incidentType'', JStr ''phishing-email'')],
              rd_severity = JStr ''high'',
              rd_type = JStr ''phishing-email'',
              rd_reason = JStr ''Testing Teams integration''\<rparr> w of
        (Inl e, w1) \<Rightarrow> (Inl e, w1)
      | (Inr u, w1) \<Rightarrow>
          (Inr \<lparr>statusCode = 200,
                resp_body = JObj [(''message'', JStr ''Test notification sent, check logs'')]\<rparr>, w1))"

text \<open>The path pattern \<^verbatim>\<open>^/api/requests/([^/]+)/status$\<close> and its captured id.\<close>

definition status_path :: "string \<Rightarrow> string option" where
  "status_path p =
     (let pre = ''/api/requests/''; suf = ''/status'';
          mid = take (length p - length pre - length suf) (drop (length pre) p)
      in if p = pre @ mid @ suf \<and> mid \<noteq> [] \<and> CHR ''/'' \<notin> set mid then Some mid else None)"

datatype route =
    OptionsRoute
  | HealthRoute
  | TestTeamsRoute
  | UserRoleRoute
  | ListRoute
  | CreateRoute
  | StatsRoute
  | StatusRoute string
  | NoRoute

definition event_path :: "event \<Rightarrow> string" where
  "event_path ev = first_truthy [path ev, rawPath ev, rc_path ev] ''/health''"

definition event_method :: "event \<Rightarrow> string" where
  "event_method ev = first_truthy [httpMethod ev, rc_method ev] ''GET''"

definition route_of :: "event \<Rightarrow> route" where
  "route_of ev =
     (let p = event_path ev; m = event_method ev in
      if rc_method ev = Some ''OPTIONS'' \<or> httpMethod ev = Some ''OPTIONS'' then OptionsRoute
      else if p = ''/health'' \<and> m = ''GET'' then HealthRoute
      else if p = ''/test-teams'' \<and> m = ''POST'' then TestTeamsRoute
      else if p = ''/api/auth/user-role'' \<and> m = ''GET'' then UserRoleRoute
      else if p = ''/api/requests'' \<and> m = ''GET'' then ListRoute
      else if p = ''/api/requests'' \<and> m = ''POST'' then CreateRoute
      else if p = ''/api/requests/stats'' \<and> m = ''GET'' then StatsRoute
      else (case status_path p of
              Some requestId \<Rightarrow> (if m = ''PUT'' then StatusRoute requestId else NoRoute)
            | None \<Rightarrow> NoRoute))"

definition route_body :: "(string \<Rightarrow> jsval option) \<Rightarrow> event \<Rightarrow> world \<Rightarrow> (error + response) \<times> world" where
  "route_body parse ev w =
     (case route_of ev of
        OptionsRoute \<Rightarrow> (Inr \<lparr>statusCode = 200, resp_body = JStr []\<rparr>, w)
      | HealthRoute \<Rightarrow> (Inr (health_response w), w)
      | TestTeamsRoute \<Rightarrow> test_teams_route w
      | UserRoleRoute \<Rightarrow> user_role_route parse ev w
      | ListRoute \<Rightarrow> list_route parse ev w
      | CreateRoute \<Rightarrow> create_route parse ev w
      | StatsRoute \<Rightarrow> stats_route w
      | StatusRoute requestId \<Rightarrow> status_route parse requestId ev w
      | NoRoute \<Rightarrow>
          (Inr \<lparr>statusCode = 404,
                resp_body = JObj [(''error'', JStr ''Not Found''),
                                  (''message'', JStr (''Route '' @ event_method ev @ '' '' @ event_path ev
                                                        @ '' not found''))]\<rparr>, w))"

text \<open>
  \<^verbatim>\<open>exports.handler\<close>: the routes run inside one \<^verbatim>\<open>try\<close>; whatever a route throws is
  written to \<^verbatim>\<open>console.error\<close> and answered with status 500, the error's message in the
  body.
\<close>

definition handler :: "(string \<Rightarrow> jsval option) \<Rightarrow> event \<Rightarrow> world \<Rightarrow> response \<times> world" where
  "handler parse ev w =
     (case route_body parse ev w of
        (Inr r, w1) \<Rightarrow> (r, w1)
      | (Inl e, w1) \<Rightarrow>
          (\<lparr>statusCode = 500,
            resp_body = JObj [(''error'', JStr ''Internal Server Error''),
                              (''message'', JStr (error_message e)),
                              (''timestamp'', JNum (int (now w1)))]\<rparr>,
           w1\<lparr>console_error := console_error w1 @ [error_message e]\<rparr>))"

section \<open>Notions used in the statements\<close>

text \<open>The storage accepts the next statement.\<close>

definition accepts :: "world \<Rightarrow> bool" where
  "accepts w = (case faults w of Some m # fs \<Rightarrow> False | _ \<Rightarrow> True)"

text \<open>The requests a list response carries, the comments a request object carries, and
  the role and permissions a role response carries.\<close>

definition response_requests :: "response \<Rightarrow> jsval list" where
  "response_requests r = (case opt_prop (resp_body r) ''requests'' of JArr xs \<Rightarrow> xs | _ \<Rightarrow> [])"

definition object_comments :: "jsval \<Rightarrow> jsval list" where
  "object_comments obj = (case opt_prop obj ''comments'' of JArr xs \<Rightarrow> xs | _ \<Rightarrow> [])"

definition resolved_role :: "response \<Rightarrow> jsval" where
  "resolved_role r = opt_prop (opt_prop (resp_body r) ''user'') ''role''"

definition resolved_permissions :: "response \<Rightarrow> jsval" where
  "resolved_permissions r = opt_prop (opt_prop (resp_body r) ''user'') ''permissions''"

definition response_message :: "response \<Rightarrow> jsval" where
  "response_message r = opt_prop (resp_body r) ''message''"

text \<open>What a row of an aggregating query becomes in the response: the \<^verbatim>\<open>null\<close>
  placeholders are dropped from its comments.\<close>

definition the_row :: "(string \<Rightarrow> jsval option) \<Rightarrow> request_row \<times> jsval \<Rightarrow> jsval" where
  "the_row parse row =
     row_object parse (fst row)
       (case snd row of JArr xs \<Rightarrow> JArr (filter (\<lambda>c. c \<noteq> JNull) xs) | _ \<Rightarrow> JArr [])"

text \<open>The embedded comments of a request: those that refer to it, in storage order.\<close>

definition comments_of :: "world \<Rightarrow> request_row \<Rightarrow> jsval" where
  "comments_of w r = JArr (map comment_json (filter (\<lambda>c. request_id c = req_id r) (request_comments w)))"

section \<open>Example inputs\<close>

text \<open>A small store: two requests of different owners, three comments on the first one
  (stored in an order that is not the order of their creation times), and three role
  records.\<close>

definition ex_requests :: "request_row list" where
  "ex_requests =
     [\<lparr>req_id = ''REQ-1'', user_id = JStr ''alice'',
       user_info = JObj [(''name'', JStr ''Alice''), (''email'', JStr ''alice@company.net'')],
       form_data = JObj [(''severity'', JStr ''high'')],
       request_type = JStr ''malware'', details = JObj [],
       reason = JStr ''Antivirus alert'', request_status = JStr ''open'',
       priority_level = JStr ''high'', created_at = 100, updated_at = 100\<rparr>,
      \<lparr>req_id = ''REQ-2'', user_id = JStr ''bob'',
       user_info = JObj [(''name'', JStr ''Bob''), (''email'', JStr ''bob@company.net'')],
       form_data = JObj [],
       request_type = JStr ''other'', details = JObj [],
       reason = JStr ''Lost badge'', request_status = JStr ''open'',
       priority_level = JStr ''medium'', created_at = 200, updated_at = 200\<rparr>]"

definition ex_comments :: "comment_row list" where
  "ex_comments =
     [\<lparr>cmt_id = ''CMT-A'', request_id = ''REQ-1'', cmt_user_id = JStr ''admin'',
       user_name = JStr ''IT Admin'', message = JStr ''Second look'',
       is_internal = JBool False, cmt_created_at = 150\<rparr>,
      \<lparr>cmt_id = ''CMT-B'', request_id = ''REQ-1'', cmt_user_id = JStr ''admin'',
       user_name = JStr ''IT Admin'', message = JStr ''First look'',
       is_internal = JBool False, cmt_created_at = 120\<rparr>,
      \<lparr>cmt_id = ''CMT-C'', request_id = ''REQ-1'', cmt_user_id = JStr ''alice'',
       user_name = JStr ''Alice'', message = JStr ''Thanks'',
       is_internal = JBool False, cmt_created_at = 180\<rparr>]"

definition ex_roles :: "role_row list" where
  "ex_roles =
     [\<lparr>email = ''ops@company.net'', user_role = JStr ''it-support'',
       permissions = permission_list it_support_permissions\<rparr>,
      \<lparr>email = ''boss@company.net'', user_role = JStr ''admin'', permissions = JObj []\<rparr>,
      \<lparr>email = ''lead@company.net'', user_role = JStr ''admin'', permissions = JStr ''[request:create''\<rparr>]"

definition ex_world :: world where
  "ex_world =
     \<lparr>requests = ex_requests, request_comments = ex_comments, user_roles = ex_roles,
      faults = [], trace = [], console_error = [], now = 300, random_suffix = ''k3x9qa'',
      POWER_AUTOMATE_WEBHOOK_URL = None, fetch_outcome = Responded 202 [],
      posted = [], request_stats = []\<rparr>"

text \<open>The texts the example calls carry, with the documents they stand for; every other
  text is taken as malformed.\<close>

definition ex_parse :: "string \<Rightarrow> jsval option" where
  \<open>ex_parse s =
     (if s = ''{"status":"closed","notes":"checked"}''
        then Some (JObj [(''status'', JStr ''closed''), (''notes'', JStr ''checked'')])
      else if s = ''{"type":"malware","reason":"Antivirus alert"}''
        then Some (JObj [(''type'', JStr ''malware''), (''reason'', JStr ''Antivirus alert'')])
      else if s = ''{"userInfo":{"name":"Eve"},"type":"malware","reason":"USB stick","formData":{"severity":"constructor"}}''
        then Some (JObj [(''userInfo'', JObj [(''name'', JStr ''Eve'')]), (''type'', JStr ''malware''),
                         (''reason'', JStr ''USB stick''),
                         (''formData'', JObj [(''severity'', JStr ''constructor'')])])
      else if s = ''{"userInfo":{"name":"Eve"},"type":"malware","reason":"USB stick","formData":{"description":123}}''
        then Some (JObj [(''userInfo'', JObj [(''name'', JStr ''Eve'')]), (''type'', JStr ''malware''),
                         (''reason'', JStr ''USB stick''),
                         (''formData'', JObj [(''description'', JNum 123)])])
      else None)\<close>

definition ex_event :: "string \<Rightarrow> string \<Rightarrow> (string \<times> string) list \<Rightarrow> string option \<Rightarrow> event" where
  "ex_event m p q b =
     \<lparr>httpMethod = Some m, path = Some p, rawPath = None, rc_method = None, rc_path = None,
      queryStringParameters = q, body = b\<rparr>"

section \<open>The storage and the read queries\<close>

lemma executeQuery_accepts:
  "accepts w \<Longrightarrow> executeQuery q w = (Inr (), effect q (w\<lparr>trace := trace w @ [q], faults := tl (faults w)\<rparr>))"
  by (cases w) (auto simp: executeQuery_def accepts_def Let_def split: option.splits list.splits)

lemma executeQuery_rejects:
  "faults w = Some m # fs \<Longrightarrow>
   executeQuery q w = (Inl (StorageError m),
      w\<lparr>trace := trace w @ [q], faults := fs, console_error := console_error w @ [m]\<rparr>)"
  by (simp add: executeQuery_def Let_def)

lemma group_by_id_ids:
  "set (map (\<lambda>x. req_id (fst x)) (group_by_id xs)) = set (map (\<lambda>x. req_id (fst x)) xs)"
  by (induction xs rule: group_by_id.induct) auto


lemma matching_nonempty: "matching r cs \<noteq> []"
  by (simp add: matching_def split: list.splits)

lemma left_join_fst: "fst ` set (left_join rs cs) = set rs"
proof -
  have "fst ` set (map (Pair r) (matching r cs)) = {r}" for r
    using matching_nonempty[of r cs] by (cases "matching r cs") (auto simp: image_iff)
  then show ?thesis by (induction rs) (simp_all add: left_join_def image_Un)
qed

lemma left_join_mem: "(a, b) \<in> set (left_join rs cs) \<Longrightarrow> a \<in> set rs"
  using left_join_fst[of rs cs] by (metis fst_conv image_eqI)

lemma filter_left_join:
  "filter (\<lambda>x. P (fst x)) (left_join rs cs) = left_join (filter P rs) cs"
  by (induction rs) (auto simp: left_join_def filter_map comp_def)

lemma group_by_id_block:
  "ms \<noteq> [] \<Longrightarrow> \<forall>y\<in>set ys. req_id (fst y) \<noteq> req_id r \<Longrightarrow>
   group_by_id (map (Pair r) ms @ ys) = (r, ms) # group_by_id ys"
  by (cases ms) (auto simp: filter_map comp_def filter_id_conv filter_empty_conv intro!: arg_cong[where f=group_by_id])

lemma group_by_id_left_join:
  "distinct (map req_id rs) \<Longrightarrow> group_by_id (left_join rs cs) = map (\<lambda>r. (r, matching r cs)) rs"
proof (induction rs)
  case Nil
  then show ?case by (simp add: left_join_def)
next
  case (Cons r rs)
  have "\<forall>y\<in>set (left_join rs cs). req_id (fst y) \<noteq> req_id r"
    using Cons.prems by (metis distinct.simps(2) image_eqI left_join_mem list.simps(9) prod.collapse set_map)
  then have "group_by_id (map (Pair r) (matching r cs) @ left_join rs cs)
               = (r, matching r cs) # group_by_id (left_join rs cs)"
    by (rule group_by_id_block[OF matching_nonempty])
  then show ?case using Cons by (simp add: left_join_def)
qed

lemma comment_json_not_null: "comment_json c \<noteq> JNull"
  by (simp add: comment_json_def)

lemma transform_row_aggregate:
  "x \<in> set (aggregate joined) \<Longrightarrow> transform_row parse x = Inr (the_row parse x)"
  by (auto simp: aggregate_def json_arrayagg_def transform_row_def the_row_def row_comments_def
      parseJSON_def bindE_def)

lemma map_rows_total: "\<forall>x\<in>set xs. f x = Inr (g x) \<Longrightarrow> map_rows f xs = Inr (map g xs)"
  by (induction xs) auto

lemma select_requests_frame [simp]:
  "select_requests scope (w\<lparr>trace := t, faults := f\<rparr>) = select_requests scope w"
  by (simp add: select_requests_def)

lemma map_rows_select:
  "map_rows (transform_row parse) (select_requests scope w) = Inr (map (the_row parse) (select_requests scope w))"
  by (rule map_rows_total) (auto simp: select_requests_def intro: transform_row_aggregate)

lemma list_route_accepts:
  "accepts w \<Longrightarrow>
   list_route parse ev w =
     (Inr \<lparr>statusCode = 200,
           resp_body = JObj [(''requests'', JArr (map (the_row parse) (select_requests (list_scope ev) w))),
                             (''count'', JNum (int (length (select_requests (list_scope ev) w))))]\<rparr>,
      w\<lparr>trace := trace w @ [SelectRequests (list_scope ev)], faults := tl (faults w)\<rparr>)"
  by (simp add: list_route_def executeQuery_accepts map_rows_select)

lemma handler_list_accepts:
  "route_of ev = ListRoute \<Longrightarrow> accepts w \<Longrightarrow>
   handler parse ev w =
     (\<lparr>statusCode = 200,
           resp_body = JObj [(''requests'', JArr (map (the_row parse) (select_requests (list_scope ev) w))),
                             (''count'', JNum (int (length (select_requests (list_scope ev) w))))]\<rparr>,
      w\<lparr>trace := trace w @ [SelectRequests (list_scope ev)], faults := tl (faults w)\<rparr>)"
  by (simp add: handler_def route_body_def list_route_accepts)

lemma accepts_cases:
  obtains (accepted) "accepts w" | (rejected) m fs where "faults w = Some m # fs"
proof (cases "faults w")
  case Nil
  then show ?thesis using that(1) by (simp add: accepts_def)
next
  case (Cons a fs)
  then show ?thesis using that by (cases a) (simp_all add: accepts_def)
qed

lemma handler_list_trace:
  assumes "route_of ev = ListRoute"
  shows "trace (snd (handler parse ev w)) = trace w @ [SelectRequests (list_scope ev)]"
proof (cases w rule: accepts_cases)
  case accepted
  then show ?thesis using assms by (simp add: handler_list_accepts)
next
  case (rejected m fs)
  then show ?thesis using assms
    by (simp add: handler_def route_body_def list_route_def executeQuery_rejects)
qed

lemma the_row_id [simp]: "opt_prop (the_row parse x) ''id'' = JStr (req_id (fst x))"
  by (simp add: the_row_def row_object_def)

lemma the_row_userId [simp]: "opt_prop (the_row parse x) ''userId'' = user_id (fst x)"
  by (simp add: the_row_def row_object_def)

lemma select_requests_alt:
  "select_requests scope w =
     rev (sort_key (\<lambda>x. created_at (fst x))
       (aggregate (left_join
          (filter (\<lambda>r. case scope of None \<Rightarrow> True | Some uid \<Rightarrow> user_id r = JStr uid) (requests w))
          (request_comments w))))"
  unfolding select_requests_def
  by (simp only: filter_left_join[of "\<lambda>r. case scope of None \<Rightarrow> True | Some uid \<Rightarrow> user_id r = JStr uid"])

lemma map_fst_aggregate: "map fst (aggregate joined) = map fst (group_by_id joined)"
  by (simp add: aggregate_def comp_def case_prod_beta)


lemma aggregate_ids:
  "(\<lambda>x. req_id (fst x)) ` set (aggregate joined) = (\<lambda>x. req_id (fst x)) ` set joined"
proof -
  have "(\<lambda>x. req_id (fst x)) ` set (aggregate joined) = set (map req_id (map fst (aggregate joined)))"
    by (simp add: image_image)
  also have "\<dots> = set (map (\<lambda>x. req_id (fst x)) (group_by_id joined))"
    by (simp only: map_fst_aggregate) (simp add: comp_def)
  also have "\<dots> = set (map (\<lambda>x. req_id (fst x)) joined)"
    by (rule group_by_id_ids)
  finally show ?thesis by simp
qed


lemma select_requests_ids:
  "(\<lambda>x. req_id (fst x)) ` set (select_requests scope w) =
     req_id ` {r \<in> set (requests w). case scope of None \<Rightarrow> True | Some uid \<Rightarrow> user_id r = JStr uid}"
proof -
  let ?rs = "filter (\<lambda>r. case scope of None \<Rightarrow> True | Some uid \<Rightarrow> user_id r = JStr uid) (requests w)"
  have "(\<lambda>x. req_id (fst x)) ` set (select_requests scope w)
          = (\<lambda>x. req_id (fst x)) ` set (left_join ?rs (request_comments w))"
    by (simp add: select_requests_alt aggregate_ids)
  also have "\<dots> = req_id ` fst ` set (left_join ?rs (request_comments w))"
    by (simp add: image_image)
  also have "\<dots> = req_id ` set ?rs"
    by (simp only: left_join_fst)
  finally show ?thesis by simp
qed

section \<open>The list of requests\<close>

lemma response_requests_list:
  "route_of ev = ListRoute \<Longrightarrow> accepts w \<Longrightarrow>
   response_requests (fst (handler parse ev w)) = map (the_row parse) (select_requests (list_scope ev) w)"
  by (simp add: handler_list_accepts response_requests_def)

lemma listed_ids:
  "(\<lambda>obj. opt_prop obj ''id'') ` set (map (the_row parse) (select_requests scope w)) =
     (\<lambda>r. JStr (req_id r)) ` {r \<in> set (requests w). case scope of None \<Rightarrow> True | Some uid \<Rightarrow> user_id r = JStr uid}"
proof -
  have "(\<lambda>obj. opt_prop obj ''id'') ` set (map (the_row parse) (select_requests scope w))
          = JStr ` (\<lambda>x. req_id (fst x)) ` set (select_requests scope w)"
    by (simp add: image_image)
  then show ?thesis by (simp only: select_requests_ids) (simp add: image_image)
qed





text \<open>
  Claim C10. On a list call without the \<^verbatim>\<open>userEmail\<close> parameter the e-mail address
  defaults to \<^verbatim>\<open>john.smith@company.net\<close>, which is on the IT team list: when the storage
  answers, the call returns status 200 and all stored requests, and the statement sent
  carries no restriction on the owner. Without the \<^verbatim>\<open>userId\<close> parameter the user id
  defaults to \<^verbatim>\<open>test-user-123\<close>, which is the owner the statement asks for when the
  caller is not on the IT team list.
\<close>

theorem list_defaults:
  "(route_of ev = ListRoute \<longrightarrow> query_param ev ''userEmail'' = None \<longrightarrow> accepts w \<longrightarrow>
      list_userEmail ev = ''john.smith@company.net''
      \<and> isITTeamMember (list_userEmail ev)
      \<and> statusCode (fst (handler parse ev w)) = 200
      \<and> (\<lambda>obj. opt_prop obj ''id'') ` set (response_requests (fst (handler parse ev w)))
          = (\<lambda>r. JStr (req_id r)) ` set (requests w)
      \<and> trace (snd (handler parse ev w)) = trace w @ [SelectRequests None])
   \<and> (route_of ev = ListRoute \<longrightarrow> query_param ev ''userId'' = None \<longrightarrow>
        list_userId ev = ''test-user-123''
        \<and> (\<not> isITTeamMember (list_userEmail ev) \<longrightarrow>
              trace (snd (handler parse ev w)) = trace w @ [SelectRequests (Some ''test-user-123'')]))"
proof (intro conjI impI)
  assume r: "route_of ev = ListRoute" and e: "query_param ev ''userEmail'' = None" and a: "accepts w"
  show mail: "list_userEmail ev = ''john.smith@company.net''"
    using e by (simp add: list_userEmail_def)
  show it: "isITTeamMember (list_userEmail ev)"
    unfolding mail by code_simp
  then have sc: "list_scope ev = None" by (simp add: list_scope_def)
  show "statusCode (fst (handler parse ev w)) = 200"
    using r a by (simp add: handler_list_accepts)
  show "(\<lambda>obj. opt_prop obj ''id'') ` set (response_requests (fst (handler parse ev w)))
          = (\<lambda>r. JStr (req_id r)) ` set (requests w)"
    using r a by (simp only: response_requests_list sc listed_ids) simp
  show "trace (snd (handler parse ev w)) = trace w @ [SelectRequests None]"
    using r by (simp add: handler_list_trace sc)
next
  assume r: "route_of ev = ListRoute" and u: "query_param ev ''userId'' = None"
  show uid: "list_userId ev = ''test-user-123''"
    using u by (simp add: list_userId_def)
  assume "\<not> isITTeamMember (list_userEmail ev)"
  then have "list_scope ev = Some ''test-user-123''" by (simp add: list_scope_def uid)
  then show "trace (snd (handler parse ev w)) = trace w @ [SelectRequests (Some ''test-user-123'')]"
    using r by (simp add: handler_list_trace)
qed

text \<open>The theorem at a call without parameters, and at a call of
  \<^verbatim>\<open>bob@company.net\<close> without a user id.\<close>

theorem list_defaults_witness:
  "route_of (ex_event ''GET'' ''/api/requests'' [] None) = ListRoute
   \<and> query_param (ex_event ''GET'' ''/api/requests'' [] None) ''userEmail'' = None
   \<and> accepts ex_world
   \<and> statusCode (fst (handler ex_parse (ex_event ''GET'' ''/api/requests'' [] None) ex_world)) = 200
   \<and> trace (snd (handler ex_parse (ex_event ''GET'' ''/api/requests'' [] None) ex_world)) = [SelectRequests None]
   \<and> map (\<lambda>obj. opt_prop obj ''id'')
        (response_requests (fst (handler ex_parse (ex_event ''GET'' ''/api/requests'' [] None) ex_world)))
       = [JStr ''REQ-2'', JStr ''REQ-1'']
   \<and> route_of (ex_event ''GET'' ''/api/requests'' [(''userEmail'', ''bob@company.net'')] None) = ListRoute
   \<and> query_param (ex_event ''GET'' ''/api/requests'' [(''userEmail'', ''bob@company.net'')] None) ''userId'' = None
   \<and> \<not> isITTeamMember (list_userEmail (ex_event ''GET'' ''/api/requests'' [(''userEmail'', ''bob@company.net'')] None))
   \<and> trace (snd (handler ex_parse (ex_event ''GET'' ''/api/requests'' [(''userEmail'', ''bob@company.net'')] None) ex_world))
       = [SelectRequests (Some ''test-user-123'')]"
proof -
  have r1: "route_of (ex_event ''GET'' ''/api/requests'' [] None) = ListRoute" by code_simp
  have e1: "query_param (ex_event ''GET'' ''/api/requests'' [] None) ''userEmail'' = None" by code_simp
  have a: "accepts ex_world" by code_simp
  have t: "trace ex_world = []" by code_simp
  have r2: "route_of (ex_event ''GET'' ''/api/requests'' [(''userEmail'', ''bob@company.net'')] None) = ListRoute"
    by code_simp
  have u2: "query_param (ex_event ''GET'' ''/api/requests'' [(''userEmail'', ''bob@company.net'')] None) ''userId'' = None"
    by code_simp
  have m2: "\<not> isITTeamMember (list_userEmail (ex_event ''GET'' ''/api/requests'' [(''userEmail'', ''bob@company.net'')] None))"
    by code_simp
  have o1: "map (\<lambda>obj. opt_prop obj ''id'')
        (response_requests (fst (handler ex_parse (ex_event ''GET'' ''/api/requests'' [] None) ex_world)))
       = [JStr ''REQ-2'', JStr ''REQ-1'']"
    by code_simp
  have p1: "statusCode (fst (handler ex_parse (ex_event ''GET'' ''/api/requests'' [] None) ex_world)) = 200
      \<and> trace (snd (handler ex_parse (ex_event ''GET'' ''/api/requests'' [] None) ex_world)) = [SelectRequests None]"
    using list_defaults[of "ex_event ''GET'' ''/api/requests'' [] None" ex_world ex_parse] r1 e1 a t by simp
  have p2: "trace (snd (handler ex_parse (ex_event ''GET'' ''/api/requests'' [(''userEmail'', ''bob@company.net'')] None) ex_world))
       = [SelectRequests (Some ''test-user-123'')]"
    using list_defaults[of "ex_event ''GET'' ''/api/requests'' [(''userEmail'', ''bob@company.net'')] None" ex_world ex_parse]
      r2 u2 m2 t by simp
  show ?thesis using r1 e1 a r2 u2 m2 o1 p1 p2 by blast
qed

section \<open>Creation\<close>


lemma get_prop_opt: "v \<noteq> JNull \<Longrightarrow> v \<noteq> JUndefined \<Longrightarrow> get_prop v p = Inr (opt_prop v p)"
  by (cases v) auto

lemma handler_create:
  "route_of ev = CreateRoute \<Longrightarrow>
   handler parse ev w =
     (case create_route parse ev w of
        (Inr r, w1) \<Rightarrow> (r, w1)
      | (Inl e, w1) \<Rightarrow>
          (\<lparr>statusCode = 500,
            resp_body = JObj [(''error'', JStr ''Internal Server Error''),
                              (''message'', JStr (error_message e)),
                              (''timestamp'', JNum (int (now w1)))]\<rparr>,
           w1\<lparr>console_error := console_error w1 @ [error_message e]\<rparr>))"
  by (simp add: handler_def route_body_def)



section \<open>The embedded comments\<close>

lemma the_row_matching:
  "the_row parse (r, json_arrayagg (matching r (request_comments w))) = row_object parse r (comments_of w r)"
proof (cases "filter (\<lambda>c. request_id c = req_id r) (request_comments w)")
  case Nil
  then show ?thesis by (simp add: the_row_def json_arrayagg_def matching_def comments_of_def)
next
  case (Cons c cs)
  have "filter (\<lambda>c. c \<noteq> JNull) (map comment_json xs) = map comment_json xs" for xs
    by (induction xs) (simp_all add: comment_json_not_null)
  then show ?thesis using Cons
    by (simp add: the_row_def json_arrayagg_def matching_def comments_of_def comp_def comment_json_not_null)
qed

lemma aggregate_left_join:
  "distinct (map req_id rs) \<Longrightarrow>
   aggregate (left_join rs cs) = map (\<lambda>r. (r, json_arrayagg (matching r cs))) rs"
  by (simp add: aggregate_def group_by_id_left_join comp_def)

lemma listed_rows:
  assumes "distinct (map req_id (requests w))"
  shows "mset (map (the_row parse) (select_requests scope w)) =
         mset (map (\<lambda>r. row_object parse r (comments_of w r))
                (filter (\<lambda>r. case scope of None \<Rightarrow> True | Some uid \<Rightarrow> user_id r = JStr uid) (requests w)))"
proof -
  let ?rs = "filter (\<lambda>r. case scope of None \<Rightarrow> True | Some uid \<Rightarrow> user_id r = JStr uid) (requests w)"
  have d: "distinct (map req_id ?rs)" using assms by (rule distinct_map_filter)
  have "mset (map (the_row parse) (select_requests scope w))
          = mset (map (the_row parse) (aggregate (left_join ?rs (request_comments w))))"
    by (simp add: select_requests_alt)
  also have "\<dots> = mset (map (the_row parse) (map (\<lambda>r. (r, json_arrayagg (matching r (request_comments w)))) ?rs))"
    by (simp only: aggregate_left_join[OF d])
  also have "\<dots> = mset (map (\<lambda>r. row_object parse r (comments_of w r)) ?rs)"
    by (simp only: map_map comp_def the_row_matching)
  finally show ?thesis .
qed

lemma filter_key:
  "distinct (map req_id rs) \<Longrightarrow> r \<in> set rs \<Longrightarrow> filter (\<lambda>x. req_id x = req_id r) rs = [r]"
proof (induction rs)
  case Nil
  then show ?case by simp
next
  case (Cons a rs)
  show ?case
  proof (cases "a = r")
    case True
    then have "filter (\<lambda>x. req_id x = req_id r) rs = []"
      using Cons.prems(1) by (force simp: filter_empty_conv image_iff)
    then show ?thesis using True by simp
  next
    case False
    then have "r \<in> set rs" using Cons.prems(2) by simp
    moreover from this have "req_id a \<noteq> req_id r" using Cons.prems(1) by (force simp: image_iff)
    ultimately show ?thesis using Cons by simp
  qed
qed

lemma select_request_by_id_found:
  assumes "distinct (map req_id (requests w))" and "r \<in> set (requests w)"
  shows "select_request_by_id (req_id r) w = [(r, json_arrayagg (matching r (request_comments w)))]"
proof -
  have "select_request_by_id (req_id r) w
          = aggregate (left_join (filter (\<lambda>x. req_id x = req_id r) (requests w)) (request_comments w))"
    unfolding select_request_by_id_def
    by (simp only: filter_left_join[of "\<lambda>x. req_id x = req_id r"])
  also have "\<dots> = aggregate (left_join [r] (request_comments w))"
    by (simp only: filter_key[OF assms])
  finally show ?thesis by (simp add: aggregate_left_join)
qed

lemma select_request_by_id_frame [simp]:
  "select_request_by_id i (w\<lparr>trace := t, faults := f\<rparr>) = select_request_by_id i w"
  by (simp add: select_request_by_id_def)

lemma fetch_updated_found:
  assumes "distinct (map req_id (requests w))" and "r \<in> set (requests w)" and "accepts w"
  shows "fst (fetch_updated parse (req_id r) w) =
           Inr \<lparr>statusCode = 200,
                resp_body = JObj [(''message'', JStr ''Request status updated successfully''),
                                  (''request'', row_object parse r (comments_of w r))]\<rparr>"
proof -
  have "transform_row parse (r, json_arrayagg (matching r (request_comments w)))
          = Inr (row_object parse r (comments_of w r))"
    using transform_row_aggregate[of "(r, json_arrayagg (matching r (request_comments w)))" "left_join [r] (request_comments w)" parse]
    by (simp add: aggregate_left_join the_row_matching)
  then show ?thesis
    using assms by (simp add: fetch_updated_def executeQuery_accepts select_request_by_id_found)
qed

text \<open>
  Claim C7, as amended. In a store whose request ids are distinct (the primary key), when
  the storage answers: a list call answers 200, and the requests of its response are,
  each exactly once, the stored requests in the scope of the call, every one with its
  embedded comments; the fetch
  after an update answers 200 with the same shape for a stored request. The embedded
  comments of a request are always an array: the comments that refer to the request, in
  the order in which the storage yields them (no order by creation time is imposed), the
  empty array when there are none.
\<close>

theorem embedded_comments:
  assumes "distinct (map req_id (requests w))" and "accepts w"
  shows "(route_of ev = ListRoute \<longrightarrow>
            statusCode (fst (handler parse ev w)) = 200 \<and>
            mset (response_requests (fst (handler parse ev w))) =
            mset (map (\<lambda>r. row_object parse r (comments_of w r))
                   (filter (\<lambda>r. case list_scope ev of None \<Rightarrow> True | Some uid \<Rightarrow> user_id r = JStr uid)
                      (requests w))))
       \<and> (r \<in> set (requests w) \<longrightarrow>
            fst (fetch_updated parse (req_id r) w) =
              Inr \<lparr>statusCode = 200,
                   resp_body = JObj [(''message'', JStr ''Request status updated successfully''),
                                     (''request'', row_object parse r (comments_of w r))]\<rparr>)
       \<and> object_comments (row_object parse r (comments_of w r)) =
            map comment_json (filter (\<lambda>c. request_id c = req_id r) (request_comments w))"
proof (intro conjI impI)
  assume "route_of ev = ListRoute"
  then show "statusCode (fst (handler parse ev w)) = 200"
    using assms(2) by (simp add: handler_list_accepts)
next
  assume "route_of ev = ListRoute"
  then show "mset (response_requests (fst (handler parse ev w))) =
            mset (map (\<lambda>r. row_object parse r (comments_of w r))
                   (filter (\<lambda>r. case list_scope ev of None \<Rightarrow> True | Some uid \<Rightarrow> user_id r = JStr uid)
                      (requests w)))"
    using assms by (simp only: response_requests_list listed_rows)
next
  assume "r \<in> set (requests w)"
  then show "fst (fetch_updated parse (req_id r) w) =
              Inr \<lparr>statusCode = 200,
                   resp_body = JObj [(''message'', JStr ''Request status updated successfully''),
                                     (''request'', row_object parse r (comments_of w r))]\<rparr>"
    using assms by (simp add: fetch_updated_found)
next
  show "object_comments (row_object parse r (comments_of w r)) =
            map comment_json (filter (\<lambda>c. request_id c = req_id r) (request_comments w))"
    by (simp add: object_comments_def row_object_def comments_of_def)
qed

text \<open>The theorem on the example store, at the request without comments.\<close>

theorem embedded_comments_witness:
  "distinct (map req_id (requests ex_world))
   \<and> accepts ex_world
   \<and> route_of (ex_event ''GET'' ''/api/requests'' [] None) = ListRoute
   \<and> ex_requests ! 1 \<in> set (requests ex_world)
   \<and> statusCode (fst (handler ex_parse (ex_event ''GET'' ''/api/requests'' [] None) ex_world)) = 200
   \<and> mset (response_requests (fst (handler ex_parse (ex_event ''GET'' ''/api/requests'' [] None) ex_world)))
       = mset (map (\<lambda>r. row_object ex_parse r (comments_of ex_world r)) (requests ex_world))
   \<and> req_id (ex_requests ! 1) = ''REQ-2''
   \<and> fst (fetch_updated ex_parse (req_id (ex_requests ! 1)) ex_world) =
        Inr \<lparr>statusCode = 200,
             resp_body = JObj [(''message'', JStr ''Request status updated successfully''),
                               (''request'', row_object ex_parse (ex_requests ! 1)
                                               (comments_of ex_world (ex_requests ! 1)))]\<rparr>
   \<and> object_comments (row_object ex_parse (ex_requests ! 1) (comments_of ex_world (ex_requests ! 1))) = []"
proof -
  have d: "distinct (map req_id (requests ex_world))" by code_simp
  have a: "accepts ex_world" by code_simp
  have r: "route_of (ex_event ''GET'' ''/api/requests'' [] None) = ListRoute" by code_simp
  have m: "ex_requests ! 1 \<in> set (requests ex_world)" by code_simp
  have sc: "list_scope (ex_event ''GET'' ''/api/requests'' [] None) = None" by code_simp
  have i: "req_id (ex_requests ! 1) = ''REQ-2''" by code_simp
  have e: "object_comments (row_object ex_parse (ex_requests ! 1) (comments_of ex_world (ex_requests ! 1))) = []"
    by code_simp
  show ?thesis
    using embedded_comments[OF d a, of "ex_event ''GET'' ''/api/requests'' [] None" ex_parse "ex_requests ! 1"]
      d a r m e i by (simp add: sc)
qed

text \<open>
  Claim C7 as stated fails in the ordering: the comments of \<^verbatim>\<open>REQ-1\<close> are stored with
  the creation times 150, 120, 180, and the list response embeds them in that order,
  which is neither ascending nor descending.
\<close>

theorem comments_order_counterexample:
  "map cmt_created_at (filter (\<lambda>c. request_id c = ''REQ-1'') (request_comments ex_world)) = [150, 120, 180]
   \<and> opt_prop (response_requests (fst (handler ex_parse (ex_event ''GET'' ''/api/requests'' [] None) ex_world)) ! 1) ''id''
       = JStr ''REQ-1''
   \<and> map (\<lambda>c. opt_prop c ''timestamp'')
        (object_comments
           (response_requests (fst (handler ex_parse (ex_event ''GET'' ''/api/requests'' [] None) ex_world)) ! 1))
       = [JNum 150, JNum 120, JNum 180]
   \<and> \<not> sorted [150, 120, 180 :: nat]
   \<and> \<not> sorted (rev [150, 120, 180 :: nat])"
  by code_simp

section \<open>Role resolution\<close>

lemma select_user_role_frame [simp]:
  "select_user_role e (w\<lparr>trace := t, faults := f\<rparr>) = select_user_role e w"
  by (simp add: select_user_role_def)

lemma handler_user_role:
  "route_of ev = UserRoleRoute \<Longrightarrow>
   handler parse ev w =
     (case user_role_route parse ev w of
        (Inr r, w1) \<Rightarrow> (r, w1)
      | (Inl e, w1) \<Rightarrow>
          (\<lparr>statusCode = 500,
            resp_body = JObj [(''error'', JStr ''Internal Server Error''),
                              (''message'', JStr (error_message e)),
                              (''timestamp'', JNum (int (now w1)))]\<rparr>,
           w1\<lparr>console_error := console_error w1 @ [error_message e]\<rparr>))"
  by (simp add: handler_def route_body_def)

lemma user_role_route_accepts:
  "query_param ev ''email'' = Some e \<Longrightarrow> e \<noteq> [] \<Longrightarrow> accepts w \<Longrightarrow>
   fst (user_role_route parse ev w) =
     Inr \<lparr>statusCode = 200,
          resp_body = user_info_body e (now w) (resolve_role parse (select_user_role (toLowerCase e) w))\<rparr>"
  by (simp add: user_role_route_def executeQuery_accepts Let_def)

lemma user_role_route_rejects:
  "query_param ev ''email'' = Some e \<Longrightarrow> e \<noteq> [] \<Longrightarrow> faults w = Some m # fs \<Longrightarrow>
   fst (user_role_route parse ev w) =
     Inr \<lparr>statusCode = 500,
          resp_body = JObj [(''error'', JStr ''Internal server error''), (''message'', JStr m)]\<rparr>"
  by (simp add: user_role_route_def executeQuery_rejects Let_def)

lemma user_role_route_never_throws: "\<exists>r. fst (user_role_route parse ev w) = Inr r"
proof (cases "first_truthy [query_param ev ''email''] [] = []")
  case True
  then show ?thesis by (simp add: user_role_route_def)
next
  case False
  then obtain e where e: "query_param ev ''email'' = Some e" "e \<noteq> []"
    by (cases "query_param ev ''email''") (auto split: if_splits)
  show ?thesis
  proof (cases w rule: accepts_cases)
    case accepted
    then show ?thesis using user_role_route_accepts[OF e, of w parse] by simp
  next
    case (rejected m fs)
    then show ?thesis using user_role_route_rejects[OF e, of w m fs parse] by simp
  qed
qed

lemma resolved_of_body [simp]:
  "resolved_role \<lparr>statusCode = c, resp_body = user_info_body e t rp\<rparr> = fst rp"
  "resolved_permissions \<lparr>statusCode = c, resp_body = user_info_body e t rp\<rparr> = snd rp"
  by (simp_all add: resolved_role_def resolved_permissions_def user_info_body_def)

lemma fst_handler_user_role:
  "route_of ev = UserRoleRoute \<Longrightarrow> fst (user_role_route parse ev w) = Inr r \<Longrightarrow>
   fst (handler parse ev w) = r"
  by (cases "user_role_route parse ev w") (simp add: handler_user_role)

text \<open>
  Claim C6, as amended. A role call never throws: the route always ends in a response.
  With a non-empty e-mail address the response is 500 when the storage rejects the lookup
  and 200 when it answers. When it answers: an address without a stored record resolves to role
  \<^verbatim>\<open>user\<close> with exactly the permissions \<^verbatim>\<open>request:create\<close> and
  \<^verbatim>\<open>request:view-own\<close>; for a stored record the role is the stored one, and the
  permissions are: the fallback keyed by the stored role when the stored value is a text
  that does not parse; what the text parses to when it parses, list or not; the stored
  array when it is an array; and the two permissions of a plain user, whatever the role,
  when it is neither a text nor an array. The fallback table gives the administrator's
  list to \<^verbatim>\<open>admin\<close>, the support list to \<^verbatim>\<open>it-support\<close> and the user's list to every
  other role, each list containing the next.
\<close>

theorem role_resolution:
  assumes "route_of ev = UserRoleRoute"
  shows "(\<exists>r. fst (route_body parse ev w) = Inr r)
    \<and> (query_param ev ''email'' = Some e \<and> e \<noteq> [] \<longrightarrow>
      (\<forall>m fs. faults w = Some m # fs \<longrightarrow> statusCode (fst (handler parse ev w)) = 500)
    \<and> (accepts w \<longrightarrow>
          statusCode (fst (handler parse ev w)) = 200
        \<and> (select_user_role (toLowerCase e) w = [] \<longrightarrow>
              resolved_role (fst (handler parse ev w)) = JStr ''user''
            \<and> resolved_permissions (fst (handler parse ev w))
                = JArr [JStr ''request:create'', JStr ''request:view-own''])
        \<and> (\<forall>r rest. select_user_role (toLowerCase e) w = r # rest \<longrightarrow>
              resolved_role (fst (handler parse ev w)) = user_role r
            \<and> (\<forall>s. permissions r = JStr s \<and> parse s = None \<longrightarrow>
                  resolved_permissions (fst (handler parse ev w)) = fallback_permissions (user_role r))
            \<and> (\<forall>s v. permissions r = JStr s \<and> parse s = Some v \<longrightarrow>
                  resolved_permissions (fst (handler parse ev w)) = v)
            \<and> (\<forall>xs. permissions r = JArr xs \<longrightarrow>
                  resolved_permissions (fst (handler parse ev w)) = JArr xs)
            \<and> ((\<forall>s. permissions r \<noteq> JStr s) \<and> (\<forall>xs. permissions r \<noteq> JArr xs) \<longrightarrow>
                  resolved_permissions (fst (handler parse ev w))
                    = JArr [JStr ''request:create'', JStr ''request:view-own'']))))
    \<and> fallback_permissions (JStr ''admin'') = permission_list admin_permissions
    \<and> fallback_permissions (JStr ''it-support'') = permission_list it_support_permissions
    \<and> (role \<noteq> JStr ''admin'' \<and> role \<noteq> JStr ''it-support'' \<longrightarrow>
          fallback_permissions role = permission_list user_permissions)
    \<and> set user_permissions \<subseteq> set it_support_permissions
    \<and> set it_support_permissions \<subseteq> set admin_permissions"
proof -
  have throws: "\<exists>r. fst (route_body parse ev w) = Inr r"
    using assms user_role_route_never_throws[of parse ev w] by (simp add: route_body_def)
  have rej: "\<forall>m fs. faults w = Some m # fs \<longrightarrow> statusCode (fst (handler parse ev w)) = 500"
    if "query_param ev ''email'' = Some e" and "e \<noteq> []"
    using that by (auto simp: fst_handler_user_role[OF assms(1) user_role_route_rejects])
  have acc: "fst (handler parse ev w) =
      \<lparr>statusCode = 200,
       resp_body = user_info_body e (now w) (resolve_role parse (select_user_role (toLowerCase e) w))\<rparr>"
    if "query_param ev ''email'' = Some e" and "e \<noteq> []" and "accepts w"
    using that by (simp add: fst_handler_user_role[OF assms(1) user_role_route_accepts])
  have res: "statusCode (fst (handler parse ev w)) = 200
        \<and> (select_user_role (toLowerCase e) w = [] \<longrightarrow>
              resolved_role (fst (handler parse ev w)) = JStr ''user''
            \<and> resolved_permissions (fst (handler parse ev w))
                = JArr [JStr ''request:create'', JStr ''request:view-own''])
        \<and> (\<forall>r rest. select_user_role (toLowerCase e) w = r # rest \<longrightarrow>
              resolved_role (fst (handler parse ev w)) = user_role r
            \<and> (\<forall>s. permissions r = JStr s \<and> parse s = None \<longrightarrow>
                  resolved_permissions (fst (handler parse ev w)) = fallback_permissions (user_role r))
            \<and> (\<forall>s v. permissions r = JStr s \<and> parse s = Some v \<longrightarrow>
                  resolved_permissions (fst (handler parse ev w)) = v)
            \<and> (\<forall>xs. permissions r = JArr xs \<longrightarrow>
                  resolved_permissions (fst (handler parse ev w)) = JArr xs)
            \<and> ((\<forall>s. permissions r \<noteq> JStr s) \<and> (\<forall>xs. permissions r \<noteq> JArr xs) \<longrightarrow>
                  resolved_permissions (fst (handler parse ev w))
                    = JArr [JStr ''request:create'', JStr ''request:view-own'']))"
    if q: "query_param ev ''email'' = Some e" and n: "e \<noteq> []" and a: "accepts w"
    unfolding acc[OF q n a]
    by (auto simp: resolve_role_def resolve_permissions_def permission_list_def user_permissions_def
        split: jsval.splits)
  have tab: "fallback_permissions (JStr ''admin'') = permission_list admin_permissions
    \<and> fallback_permissions (JStr ''it-support'') = permission_list it_support_permissions
    \<and> (role \<noteq> JStr ''admin'' \<and> role \<noteq> JStr ''it-support'' \<longrightarrow>
          fallback_permissions role = permission_list user_permissions)
    \<and> set user_permissions \<subseteq> set it_support_permissions
    \<and> set it_support_permissions \<subseteq> set admin_permissions"
    by (simp add: fallback_permissions_def user_permissions_def it_support_permissions_def
        admin_permissions_def)
  from throws rej res tab show ?thesis by blast
qed

text \<open>The theorem on the example store: an administrator whose stored permissions are a
  text that does not parse, and an address without a record.\<close>

theorem role_resolution_witness:
  "route_of (ex_event ''GET'' ''/api/auth/user-role'' [(''email'', ''Lead@Company.net'')] None) = UserRoleRoute
   \<and> query_param (ex_event ''GET'' ''/api/auth/user-role'' [(''email'', ''Lead@Company.net'')] None) ''email''
       = Some ''Lead@Company.net''
   \<and> accepts ex_world
   \<and> select_user_role (toLowerCase ''Lead@Company.net'') ex_world = [ex_roles ! 2]
   \<and> user_role (ex_roles ! 2) = JStr ''admin''
   \<and> permissions (ex_roles ! 2) = JStr ''[request:create''
   \<and> ex_parse ''[request:create'' = None
   \<and> statusCode (fst (handler ex_parse
         (ex_event ''GET'' ''/api/auth/user-role'' [(''email'', ''Lead@Company.net'')] None) ex_world)) = 200
   \<and> resolved_role (fst (handler ex_parse
         (ex_event ''GET'' ''/api/auth/user-role'' [(''email'', ''Lead@Company.net'')] None) ex_world)) = JStr ''admin''
   \<and> resolved_permissions (fst (handler ex_parse
         (ex_event ''GET'' ''/api/auth/user-role'' [(''email'', ''Lead@Company.net'')] None) ex_world))
       = permission_list admin_permissions
   \<and> route_of (ex_event ''GET'' ''/api/auth/user-role'' [(''email'', ''nobody@company.net'')] None) = UserRoleRoute
   \<and> select_user_role (toLowerCase ''nobody@company.net'') ex_world = []
   \<and> resolved_role (fst (handler ex_parse
         (ex_event ''GET'' ''/api/auth/user-role'' [(''email'', ''nobody@company.net'')] None) ex_world)) = JStr ''user''
   \<and> resolved_permissions (fst (handler ex_parse
         (ex_event ''GET'' ''/api/auth/user-role'' [(''email'', ''nobody@company.net'')] None) ex_world))
       = JArr [JStr ''request:create'', JStr ''request:view-own'']"
proof -
  let ?lead = "ex_event ''GET'' ''/api/auth/user-role'' [(''email'', ''Lead@Company.net'')] None"
  let ?nobody = "ex_event ''GET'' ''/api/auth/user-role'' [(''email'', ''nobody@company.net'')] None"
  have r1: "route_of ?lead = UserRoleRoute" by code_simp
  have q1: "query_param ?lead ''email'' = Some ''Lead@Company.net''" by code_simp
  have n1: "''Lead@Company.net'' \<noteq> []" by simp
  have a: "accepts ex_world" by code_simp
  have s1: "select_user_role (toLowerCase ''Lead@Company.net'') ex_world = [ex_roles ! 2]" by code_simp
  have u1: "user_role (ex_roles ! 2) = JStr ''admin''" by code_simp
  have p1: "permissions (ex_roles ! 2) = JStr ''[request:create''" by code_simp
  have x1: "ex_parse ''[request:create'' = None" by code_simp
  have r2: "route_of ?nobody = UserRoleRoute" by code_simp
  have q2: "query_param ?nobody ''email'' = Some ''nobody@company.net''" by code_simp
  have n2: "''nobody@company.net'' \<noteq> []" by simp
  have s2: "select_user_role (toLowerCase ''nobody@company.net'') ex_world = []" by code_simp
  note t1 = role_resolution[OF r1, of ex_parse ex_world "''Lead@Company.net''",
      THEN conjunct2, THEN conjunct1, THEN mp, OF conjI[OF q1 n1], THEN conjunct2, THEN mp, OF a]
  note t2 = role_resolution[OF r2, of ex_parse ex_world "''nobody@company.net''",
      THEN conjunct2, THEN conjunct1, THEN mp, OF conjI[OF q2 n2], THEN conjunct2, THEN mp, OF a]
  note f1 = t1[THEN conjunct2, THEN conjunct2, THEN spec, THEN spec, THEN mp, OF s1]
  have c1: "statusCode (fst (handler ex_parse ?lead ex_world)) = 200
      \<and> resolved_role (fst (handler ex_parse ?lead ex_world)) = JStr ''admin''
      \<and> resolved_permissions (fst (handler ex_parse ?lead ex_world)) = permission_list admin_permissions"
    using t1[THEN conjunct1] f1[THEN conjunct1]
      f1[THEN conjunct2, THEN conjunct1, THEN spec, THEN mp, OF conjI[OF p1 x1]]
    by (simp add: u1 fallback_permissions_def)
  have c2: "resolved_role (fst (handler ex_parse ?nobody ex_world)) = JStr ''user''
      \<and> resolved_permissions (fst (handler ex_parse ?nobody ex_world))
          = JArr [JStr ''request:create'', JStr ''request:view-own'']"
    using t2[THEN conjunct2, THEN conjunct1, THEN mp, OF s2] .
  show ?thesis using r1 q1 a s1 u1 p1 x1 r2 s2 c1 c2 by simp
qed

text \<open>
  Claim C6 as stated fails for a stored value that is not a list: the administrator
  \<^verbatim>\<open>boss@company.net\<close> has the JSON object \<^verbatim>\<open>{}\<close> as stored permissions, and the
  call resolves to the two permissions of a plain user, not to the administrator's entry
  of the fallback table.
\<close>

theorem stored_permissions_counterexample:
  "select_user_role (toLowerCase ''Boss@Company.net'') ex_world
     = [\<lparr>email = ''boss@company.net'', user_role = JStr ''admin'', permissions = JObj []\<rparr>]
   \<and> statusCode (fst (handler ex_parse
         (ex_event ''GET'' ''/api/auth/user-role'' [(''email'', ''Boss@Company.net'')] None) ex_world)) = 200
   \<and> resolved_role (fst (handler ex_parse
         (ex_event ''GET'' ''/api/auth/user-role'' [(''email'', ''Boss@Company.net'')] None) ex_world)) = JStr ''admin''
   \<and> resolved_permissions (fst (handler ex_parse
         (ex_event ''GET'' ''/api/auth/user-role'' [(''email'', ''Boss@Company.net'')] None) ex_world))
       = JArr [JStr ''request:create'', JStr ''request:view-own'']
   \<and> resolved_permissions (fst (handler ex_parse
         (ex_event ''GET'' ''/api/auth/user-role'' [(''email'', ''Boss@Company.net'')] None) ex_world))
       \<noteq> fallback_permissions (JStr ''admin'')"
  by code_simp

section \<open>The status update\<close>

lemma handler_status:
  "route_of ev = StatusRoute rid \<Longrightarrow>
   handler parse ev w =
     (case status_route parse rid ev w of
        (Inr r, w1) \<Rightarrow> (r, w1)
      | (Inl e, w1) \<Rightarrow>
          (\<lparr>statusCode = 500,
            resp_body = JObj [(''error'', JStr ''Internal Server Error''),
                              (''message'', JStr (error_message e)),
                              (''timestamp'', JNum (int (now w1)))]\<rparr>,
           w1\<lparr>console_error := console_error w1 @ [error_message e]\<rparr>))"
  by (simp add: handler_def route_body_def)


lemma executeQuery_no_faults:
  "faults w = [] \<Longrightarrow> executeQuery q w = (Inr (), effect q (w\<lparr>trace := trace w @ [q]\<rparr>))"
  by (simp add: executeQuery_def Let_def)

lemma truthy_opt_prop: "truthy (opt_prop d p) \<Longrightarrow> get_prop d p = Inr (opt_prop d p)"
  by (cases d) auto





section \<open>Where the code departs from the specification\<close>

subsection \<open>The priority of a new request\<close>

text \<open>On the four listed severities, on an absent or falsy severity, and on every other
  string that names no member of \<^verbatim>\<open>Object.prototype\<close>, the derivation is the mapping of the
  specification.\<close>

lemma derive_priority_listed:
  assumes "opt_prop (opt_prop requestData ''formData'') ''severity'' = JStr s"
    and "s \<in> set [''low'', ''medium'', ''high'', ''critical'']"
  shows "derive_priority requestData = Inr (JStr s)"
proof -
  have "requestData \<noteq> JNull" "requestData \<noteq> JUndefined" using assms(1) by auto
  then have g: "get_prop requestData ''formData'' = Inr (opt_prop requestData ''formData'')"
    by (rule get_prop_opt)
  show ?thesis using assms
    by (auto simp: derive_priority_def g bindE_def lookup_literal_def severityToPriority_def js_or_def)
qed

lemma derive_priority_absent:
  assumes "requestData \<noteq> JNull" and "requestData \<noteq> JUndefined"
    and "\<not> truthy (opt_prop (opt_prop requestData ''formData'') ''severity'')"
  shows "derive_priority requestData = Inr (JStr ''medium'')"
  using assms by (simp add: derive_priority_def get_prop_opt bindE_def)

lemma derive_priority_other:
  assumes "opt_prop (opt_prop requestData ''formData'') ''severity'' = JStr s"
    and "s \<notin> set [''low'', ''medium'', ''high'', ''critical'']"
    and "s \<notin> fst ` set object_prototype"
  shows "derive_priority requestData = Inr (JStr ''medium'')"
proof -
  have "requestData \<noteq> JNull" "requestData \<noteq> JUndefined" using assms(1) by auto
  then have g: "get_prop requestData ''formData'' = Inr (opt_prop requestData ''formData'')"
    by (rule get_prop_opt)
  have p: "map_of object_prototype s = None" using assms(3) by (simp add: map_of_eq_None_iff)
  have q: "map_of severityToPriority s = None"
    using assms(2) by (simp add: map_of_eq_None_iff severityToPriority_def)
  show ?thesis using assms(1)
    by (simp add: derive_priority_def g bindE_def lookup_literal_def p q js_or_def)
qed

text \<open>
  Claim C2 does not hold of the code. The severity \<^verbatim>\<open>constructor\<close> is none of the four
  listed values, yet the computed read on the object literal finds the inherited
  \<^verbatim>\<open>constructor\<close> of \<^verbatim>\<open>Object.prototype\<close>, a function, which is truthy: the derived
  priority is that function, not \<^verbatim>\<open>medium\<close>. It is the priority bound to the
  \<^verbatim>\<open>INSERT\<close>; when the driver refuses it the call ends in status 500. Two more
  severities outside the four: the array \<^verbatim>\<open>["high"]\<close> derives \<^verbatim>\<open>high\<close>, and an object
  with a property \<^verbatim>\<open>toString\<close> makes the derivation throw.
\<close>

theorem priority_inherited_key:
  \<open>parse_body ex_parse (ex_event ''POST'' ''/api/requests'' [] (Some ''{"userInfo":{"name":"Eve"},"type":"malware","reason":"USB stick","formData":{"severity":"constructor"}}''))
     = Inr (JObj [(''userInfo'', JObj [(''name'', JStr ''Eve'')]), (''type'', JStr ''malware''),
                  (''reason'', JStr ''USB stick''),
                  (''formData'', JObj [(''severity'', JStr ''constructor'')])])
   \<and> derive_priority (JObj [(''userInfo'', JObj [(''name'', JStr ''Eve'')]), (''type'', JStr ''malware''),
                  (''reason'', JStr ''USB stick''),
                  (''formData'', JObj [(''severity'', JStr ''constructor'')])])
       = Inr (JFun ''Object'')
   \<and> trace (snd (handler ex_parse (ex_event ''POST'' ''/api/requests'' [] (Some ''{"userInfo":{"name":"Eve"},"type":"malware","reason":"USB stick","formData":{"severity":"constructor"}}'')) ex_world))
       = [InsertRequest
            \<lparr>req_id = ''REQ-8C-K3X9QA'', user_id = JStr ''test-user-123'',
             user_info = JObj [(''name'', JStr ''Eve'')],
             form_data = JObj [(''severity'', JStr ''constructor'')],
             request_type = JStr ''malware'', details = JObj [], reason = JStr ''USB stick'',
             request_status = JStr ''open'', priority_level = JFun ''Object'',
             created_at = 300, updated_at = 300\<rparr>]
   \<and> statusCode (fst (handler ex_parse (ex_event ''POST'' ''/api/requests'' [] (Some ''{"userInfo":{"name":"Eve"},"type":"malware","reason":"USB stick","formData":{"severity":"constructor"}}''))
         (ex_world\<lparr>faults := [Some ''Bind parameters must not contain function(s)'']\<rparr>))) = 500
   \<and> derive_priority (JObj [(''formData'', JObj [(''severity'', JArr [JStr ''high''])])]) = Inr (JStr ''high'')
   \<and> derive_priority (JObj [(''formData'', JObj [(''severity'', JObj [(''toString'', JNum 1)])])])
       = Inl (TypeError ''Cannot convert object to primitive value'')\<close>
  by code_simp

subsection \<open>A status update for an unknown id\<close>

text \<open>Without notes, an update for an id that no request has is answered with 404, and
  only the update and the fetch are sent.\<close>

lemma select_request_by_id_unknown:
  "rid \<notin> req_id ` set (requests w) \<Longrightarrow> select_request_by_id rid w = []"
proof -
  assume a: "rid \<notin> req_id ` set (requests w)"
  have "select_request_by_id rid w
          = aggregate (left_join (filter (\<lambda>x. req_id x = rid) (requests w)) (request_comments w))"
    unfolding select_request_by_id_def
    by (simp only: filter_left_join[of "\<lambda>x. req_id x = rid"])
  moreover have "filter (\<lambda>x. req_id x = rid) (requests w) = []"
    using a by (auto simp: filter_empty_conv)
  ultimately show ?thesis by (simp add: left_join_def aggregate_def)
qed

lemma update_unknown_id:
  "rid \<notin> req_id ` set rs \<Longrightarrow>
   map (\<lambda>r. if req_id r = rid then r\<lparr>request_status := s, updated_at := t\<rparr> else r) rs = rs"
  by (induction rs) auto

lemma unknown_id_without_notes:
  assumes "route_of ev = StatusRoute rid"
    and "parse_body parse ev = Inr d"
    and "truthy (opt_prop d ''status'')"
    and "notes_given (opt_prop d ''notes'') = Inr False"
    and "rid \<notin> req_id ` set (requests w)"
    and "faults w = []"
  shows "handler parse ev w =
           (\<lparr>statusCode = 404, resp_body = JObj [(''error'', JStr ''Request not found'')]\<rparr>,
            w\<lparr>trace := trace w @ [UpdateStatus (opt_prop d ''status'') (now w) rid, SelectRequestById rid]\<rparr>)"
proof -
  let ?w1 = "w\<lparr>trace := trace w @ [UpdateStatus (opt_prop d ''status'') (now w) rid]\<rparr>"
  have u: "effect (UpdateStatus (opt_prop d ''status'') (now w) rid) ?w1 = ?w1"
    using assms(5) by (simp add: update_unknown_id)
  have n: "add_notes rid d ?w1 = (Inr (), ?w1)"
    using assms(4) by (simp add: add_notes_def)
  have s: "select_request_by_id rid (?w1\<lparr>trace := trace ?w1 @ [SelectRequestById rid]\<rparr>) = []"
    using assms(5) by (simp add: select_request_by_id_unknown)
  have f: "fetch_updated parse rid ?w1 =
             (Inr not_found_response, ?w1\<lparr>trace := trace ?w1 @ [SelectRequestById rid]\<rparr>)"
    using assms(6) s by (simp add: fetch_updated_def executeQuery_no_faults)
  have "status_route parse rid ev w =
          (Inr not_found_response, ?w1\<lparr>trace := trace ?w1 @ [SelectRequestById rid]\<rparr>)"
    using assms(2,3,6)
    by (simp add: status_route_def truthy_opt_prop executeQuery_no_faults u n f del: effect.simps)
  then show ?thesis using assms(1) by (simp add: handler_status not_found_response_def)
qed

text \<open>
  Claim C4 does not hold of the code when notes are supplied. The comment is inserted
  before the request is looked up: for an id that no request has, either the storage
  rejects the insertion (the foreign key of the schema) and the answer is the general
  failure, status 500, or it accepts it, and the answer is 404 with a comment stored
  for the unknown id.
\<close>

theorem unknown_id_with_notes:
  \<open>route_of (ex_event ''PUT'' ''/api/requests/REQ-404/status'' [] (Some ''{"status":"closed","notes":"checked"}'')) = StatusRoute ''REQ-404''
   \<and> ''REQ-404'' \<notin> set (map req_id (requests ex_world))
   \<and> statusCode (fst (handler ex_parse (ex_event ''PUT'' ''/api/requests/REQ-404/status'' [] (Some ''{"status":"closed","notes":"checked"}''))
         (ex_world\<lparr>faults := [None, Some ''Cannot add or update a child row: a foreign key constraint fails'']\<rparr>)))
       = 500
   \<and> resp_body (fst (handler ex_parse (ex_event ''PUT'' ''/api/requests/REQ-404/status'' [] (Some ''{"status":"closed","notes":"checked"}''))
         (ex_world\<lparr>faults := [None, Some ''Cannot add or update a child row: a foreign key constraint fails'']\<rparr>)))
       = JObj [(''error'', JStr ''Internal Server Error''),
               (''message'', JStr ''Cannot add or update a child row: a foreign key constraint fails''),
               (''timestamp'', JNum 300)]
   \<and> statusCode (fst (handler ex_parse (ex_event ''PUT'' ''/api/requests/REQ-404/status'' [] (Some ''{"status":"closed","notes":"checked"}'')) ex_world))
       = 404
   \<and> map request_id (request_comments (snd (handler ex_parse
         (ex_event ''PUT'' ''/api/requests/REQ-404/status'' [] (Some ''{"status":"closed","notes":"checked"}'')) ex_world)))
       = [''REQ-1'', ''REQ-1'', ''REQ-1'', ''REQ-404'']\<close>
  by code_simp

subsection \<open>The notification of a new request\<close>

text \<open>Once the payload is built, nothing that happens to the delivery leaves
  \<^verbatim>\<open>sendTeamsNotification\<close>, and a creation that the storage accepts answers 201 with the
  same body whatever the webhook does.\<close>

lemma sendTeamsNotification_contained:
  "notification_payload rd = Inr payload \<Longrightarrow> fst (sendTeamsNotification rd w) = Inr ()"
  by (simp add: sendTeamsNotification_def split: option.splits fetch_result.splits)

lemma sendTeamsNotification_unconfigured:
  "POWER_AUTOMATE_WEBHOOK_URL w = None \<Longrightarrow> sendTeamsNotification rd w = (Inr (), w)"
  by (simp add: sendTeamsNotification_def)

lemma sendTeamsNotification_tables:
  "requests (snd (sendTeamsNotification rd w)) = requests w
   \<and> request_comments (snd (sendTeamsNotification rd w)) = request_comments w
   \<and> trace (snd (sendTeamsNotification rd w)) = trace w"
  by (simp add: sendTeamsNotification_def split: option.splits fetch_result.splits sum.splits)

lemma create_outcome_when_payload_builds:
  assumes "route_of ev = CreateRoute"
    and "parse_body parse ev = Inr d"
    and "truthy (opt_prop d ''userInfo'')" and "truthy (opt_prop d ''type'')" and "truthy (opt_prop d ''reason'')"
    and "derive_priority d = Inr p"
    and "accepts w"
    and "POWER_AUTOMATE_WEBHOOK_URL w = None
         \<or> (\<exists>payload. notification_payload
               \<lparr>rd_requestId = generateRequestId w, rd_userInfo = opt_prop d ''userInfo'',
                rd_formData = opt_prop d ''formData'', rd_severity = p,
                rd_type = opt_prop d ''type'', rd_reason = opt_prop d ''reason''\<rparr> = Inr payload)"
  shows "fst (handler parse ev w) =
           created_response (generateRequestId w) (js_or (opt_prop d ''userId'') (JStr ''test-user-123''))
             d p (now w)"
proof -
  let ?rd = "\<lparr>rd_requestId = generateRequestId w, rd_userInfo = opt_prop d ''userInfo'',
                rd_formData = opt_prop d ''formData'', rd_severity = p,
                rd_type = opt_prop d ''type'', rd_reason = opt_prop d ''reason''\<rparr>"
  let ?uid = "js_or (opt_prop d ''userId'') (JStr ''test-user-123'')"
  let ?w1 = "effect (InsertRequest (new_request_row (generateRequestId w) ?uid d p (now w)))
               (w\<lparr>trace := trace w @ [InsertRequest (new_request_row (generateRequestId w) ?uid d p (now w))],
                  faults := tl (faults w)\<rparr>)"
  have "d \<noteq> JNull" "d \<noteq> JUndefined" using assms(3) by auto
  then have g: "get_prop d ''userId'' = Inr (opt_prop d ''userId'')" by (rule get_prop_opt)
  have n: "fst (sendTeamsNotification ?rd ?w1) = Inr ()"
    using assms(8)
  proof
    assume "POWER_AUTOMATE_WEBHOOK_URL w = None"
    then show ?thesis by (simp add: sendTeamsNotification_def)
  next
    assume "\<exists>payload. notification_payload ?rd = Inr payload"
    then show ?thesis by (auto simp: sendTeamsNotification_contained)
  qed
  have "fst (create_route parse ev w) = Inr (created_response (generateRequestId w) ?uid d p (now w))"
    using assms(2-7) n
    by (cases "sendTeamsNotification ?rd ?w1")
       (simp add: create_route_def g executeQuery_accepts Let_def del: effect.simps)
  then show ?thesis using assms(1)
    by (cases "create_route parse ev w") (simp add: handler_create)
qed

text \<open>
  Claim C8 does not hold of the code. The payload of the notification is built outside
  the \<^verbatim>\<open>try\<close> block of \<^verbatim>\<open>sendTeamsNotification\<close>: for a creation payload whose
  \<^verbatim>\<open>formData.description\<close> is the number 123 the call answers 201 when no webhook is
  configured, and 500 when one is, with the request stored in both cases and nothing
  posted.
\<close>

theorem notification_payload_throws:
  \<open>statusCode (fst (handler ex_parse (ex_event ''POST'' ''/api/requests'' [] (Some ''{"userInfo":{"name":"Eve"},"type":"malware","reason":"USB stick","formData":{"description":123}}'')) ex_world)) = 201
   \<and> POWER_AUTOMATE_WEBHOOK_URL ex_world = None
   \<and> statusCode (fst (handler ex_parse (ex_event ''POST'' ''/api/requests'' [] (Some ''{"userInfo":{"name":"Eve"},"type":"malware","reason":"USB stick","formData":{"description":123}}''))
         (ex_world\<lparr>POWER_AUTOMATE_WEBHOOK_URL := Some ''https://hooks.example/flow''\<rparr>))) = 500
   \<and> response_message (fst (handler ex_parse (ex_event ''POST'' ''/api/requests'' [] (Some ''{"userInfo":{"name":"Eve"},"type":"malware","reason":"USB stick","formData":{"description":123}}''))
         (ex_world\<lparr>POWER_AUTOMATE_WEBHOOK_URL := Some ''https://hooks.example/flow''\<rparr>)))
       = JStr ''substring is not a function''
   \<and> map req_id (requests (snd (handler ex_parse (ex_event ''POST'' ''/api/requests'' [] (Some ''{"userInfo":{"name":"Eve"},"type":"malware","reason":"USB stick","formData":{"description":123}}''))
         (ex_world\<lparr>POWER_AUTOMATE_WEBHOOK_URL := Some ''https://hooks.example/flow''\<rparr>))))
       = [''REQ-1'', ''REQ-2'', ''REQ-8C-K3X9QA'']
   \<and> posted (snd (handler ex_parse (ex_event ''POST'' ''/api/requests'' [] (Some ''{"userInfo":{"name":"Eve"},"type":"malware","reason":"USB stick","formData":{"description":123}}''))
         (ex_world\<lparr>POWER_AUTOMATE_WEBHOOK_URL := Some ''https://hooks.example/flow''\<rparr>))) = []\<close>
  by code_simp

subsection \<open>The failure of the storage\<close>

text \<open>
  Claim C9 does not hold of the code in the message. When the storage rejects the
  statement of a list call, the answer is status 500 and its \<^verbatim>\<open>message\<close> is the
  storage's own message, word for word (here the address and port of the database
  host); the role route does the same. The statement is sent once, and the message is
  written to \<^verbatim>\<open>console.error\<close>.
\<close>

theorem storage_message_surfaced:
  "statusCode (fst (handler ex_parse (ex_event ''GET'' ''/api/requests'' [] None)
       (ex_world\<lparr>faults := [Some ''connect ECONNREFUSED 10.0.3.7:3306'']\<rparr>))) = 500
   \<and> resp_body (fst (handler ex_parse (ex_event ''GET'' ''/api/requests'' [] None)
       (ex_world\<lparr>faults := [Some ''connect ECONNREFUSED 10.0.3.7:3306'']\<rparr>)))
      = JObj [(''error'', JStr ''Internal Server Error''),
              (''message'', JStr ''connect ECONNREFUSED 10.0.3.7:3306''),
              (''timestamp'', JNum 300)]
   \<and> resp_body (fst (handler ex_parse (ex_event ''GET'' ''/api/auth/user-role'' [(''email'', ''bob@company.net'')] None)
       (ex_world\<lparr>faults := [Some ''connect ECONNREFUSED 10.0.3.7:3306'']\<rparr>)))
      = JObj [(''error'', JStr ''Internal server error''),
              (''message'', JStr ''connect ECONNREFUSED 10.0.3.7:3306'')]
   \<and> trace (snd (handler ex_parse (ex_event ''GET'' ''/api/requests'' [] None)
       (ex_world\<lparr>faults := [Some ''connect ECONNREFUSED 10.0.3.7:3306'']\<rparr>))) = [SelectRequests None]
   \<and> console_error (snd (handler ex_parse (ex_event ''GET'' ''/api/requests'' [] None)
       (ex_world\<lparr>faults := [Some ''connect ECONNREFUSED 10.0.3.7:3306'']\<rparr>)))
      = [''connect ECONNREFUSED 10.0.3.7:3306'', ''connect ECONNREFUSED 10.0.3.7:3306'']"
  by code_simp

end
